theory Spec2Isabelle
  imports Complex_Main "HOL-Library.AList" "HOL-Library.Sublist" "HOL-Library.Multiset"
    "HOL-Library.Word"
begin

section \<open>JavaScript values and array helpers\<close>

text \<open>
  The values a parsed JSON body or a metadata object can hold. Arrays and objects are
  compared by reference under \<^verbatim>\<open>===\<close>, so they are represented by their reference.
  Numbers are idealised as reals.
\<close>

datatype jsvalue = JNull | JBool bool | JNum real | JStr string | JRef nat

text \<open>
  \<^verbatim>\<open>arr.slice(0, end)\<close> for an integral \<^verbatim>\<open>end\<close>: a negative end counts from the
  back of the array and is clamped at 0.
\<close>

definition slice0 :: "'a list \<Rightarrow> int \<Rightarrow> 'a list" where
  "slice0 xs e =
     (if e < 0 then take (nat (int (length xs) + e)) xs else take (nat e) xs)"

text \<open>
  \<^verbatim>\<open>arr.sort((a, b) => score(b) - score(a))\<close>: the sort of ECMAScript 2019 is stable,
  and this comparator orders by descending score. Insertion sort on the negated
  score is stable as well, and a stable sort has only one result.
\<close>

definition sortDesc :: "('a \<Rightarrow> real) \<Rightarrow> 'a list \<Rightarrow> 'a list" where
  "sortDesc score xs = sort_key (\<lambda>x. - score x) xs"

text \<open>
  The same sort for scores of any linearly ordered type, where no negation is at hand:
  the array is reversed, sorted stably in ascending order and reversed again, which puts
  the scores in descending order and leaves elements of equal score in their order.
\<close>

definition sortDescBy :: "('a \<Rightarrow> 'k::linorder) \<Rightarrow> 'a list \<Rightarrow> 'a list" where
  "sortDescBy score xs = rev (sort_key score (rev xs))"

section \<open>The simulated vector database (api/vector/search/route.ts)\<close>

record vector =
  v_id :: string
  v_values :: "real list"
  v_metadata :: "(string \<times> jsvalue) list"

text \<open>
  A query result is a stored vector spread into a fresh object together with its score.
\<close>

record scored = vector +
  score :: real

text \<open>
  \<^verbatim>\<open>private vectors: Map<string, ...>\<close>. A JavaScript Map iterates in insertion order
  and \<^verbatim>\<open>set\<close> on a key already present keeps the key's position: an association
  list updated in place.
\<close>

type_synonym vectorDatabase = "(string \<times> vector) list"

definition upsert :: "vector list \<Rightarrow> vectorDatabase \<Rightarrow> vectorDatabase" where
  "upsert vectors db = foldl (\<lambda>m v. AList.update (v_id v) v m) db vectors"

text \<open>
  \<^verbatim>\<open>Math.random() * 0.3 + 0.7\<close> is drawn once for every stored vector, in iteration
  order; \<open>rnd i\<close> is the value of the \<open>i\<close>-th call of \<^verbatim>\<open>Math.random()\<close>.
  The query embedding is a parameter of the method and is not read by its body.
\<close>

definition withScore :: "vector \<Rightarrow> real \<Rightarrow> scored" where
  "withScore v s = vector.extend v (scored.fields s)"

definition query :: "(nat \<Rightarrow> real) \<Rightarrow> vectorDatabase \<Rightarrow> real list \<Rightarrow> int \<Rightarrow> scored list" where
  "query rnd db queryEmbedding topK =
     (let results = map (\<lambda>(i, vector). withScore vector (rnd i * 0.3 + 0.7))
                        (enumerate 0 (map snd db))
      in slice0 (sortDesc score results) topK)"

text \<open>
  The metadata filter of the POST handler: with no keys every result passes, otherwise
  every (key, value) entry of the filter must be strictly equal to the result's metadata
  at that key. A key absent from the metadata reads as \<^verbatim>\<open>undefined\<close>, which is
  strictly equal to no JSON value.
\<close>

definition passesFilters :: "(string \<times> jsvalue) list \<Rightarrow> (string \<times> jsvalue) list \<Rightarrow> bool" where
  "passesFilters filters md =
     (if length filters = 0 then True
      else list_all (\<lambda>(key, val). map_of md key = Some val) filters)"

definition filteredResults ::
  "(nat \<Rightarrow> real) \<Rightarrow> vectorDatabase \<Rightarrow> real list \<Rightarrow> int \<Rightarrow> (string \<times> jsvalue) list \<Rightarrow> scored list" where
  "filteredResults rnd db queryEmbedding topK filters =
     (let searchResults = query rnd db queryEmbedding topK
      in filter (\<lambda>result. passesFilters filters (v_metadata result)) searchResults)"

text \<open>
  The five sample chunks of \<^verbatim>\<open>initializeWithSampleData\<close>, stored when the singleton
  is first asked for. \<open>embedding i\<close> is the mock embedding drawn for the \<open>i\<close>-th chunk
  (1536 calls of \<^verbatim>\<open>Math.random()\<close>). The stored metadata is the chunk's metadata
  spread into a new object whose \<^verbatim>\<open>text\<close> is the chunk's text.
\<close>

definition sampleChunks :: "(string \<times> string \<times> (string \<times> jsvalue) list) list" where
  "sampleChunks =
     [(''chunk_1'',
       ''Grace period of thirty days is provided for premium payment after the due date'',
       [(''type'', JStr ''payment_terms''), (''section'', JStr ''grace_period'')]),
      (''chunk_2'',
       ''Waiting period of thirty-six months for pre-existing diseases and their direct complications'',
       [(''type'', JStr ''coverage_terms''), (''section'', JStr ''pre_existing'')]),
      (''chunk_3'',
       ''Maternity expenses covered including childbirth and lawful medical termination of pregnancy'',
       [(''type'', JStr ''coverage_benefits''), (''section'', JStr ''maternity'')]),
      (''chunk_4'',
       ''Specific waiting period of two years for cataract surgery'',
       [(''type'', JStr ''coverage_terms''), (''section'', JStr ''cataract'')]),
      (''chunk_5'',
       ''Medical expenses for organ donor hospitalization covered for harvesting organ'',
       [(''type'', JStr ''coverage_benefits''), (''section'', JStr ''organ_donor'')])]"

definition initializeWithSampleData :: "(nat \<Rightarrow> real list) \<Rightarrow> vectorDatabase" where
  "initializeWithSampleData embedding =
     foldl (\<lambda>m (i, (cid, text, md)).
              AList.update cid
                \<lparr> v_id = cid, v_values = embedding i,
                  v_metadata = AList.update ''text'' (JStr text) md \<rparr> m)
           [] (enumerate 0 sampleChunks)"

section \<open>Strings as JavaScript reads them\<close>

text \<open>
  A string is a list of code units; \<^verbatim>\<open>s.length\<close> is the length of the list.
  \<^verbatim>\<open>s.substring(indexStart, indexEnd)\<close> clamps both indices into
  \<open>[0, s.length]\<close> and swaps them when the first is the larger.
\<close>

definition substring :: "string \<Rightarrow> int \<Rightarrow> int \<Rightarrow> string" where
  "substring s indexStart indexEnd =
     (let len = int (length s);
          a = max 0 (min indexStart len);
          b = max 0 (min indexEnd len);
          lo = min a b;
          hi = max a b
      in take (nat (hi - lo)) (drop (nat lo) s))"

text \<open>\<^verbatim>\<open>s.lastIndexOf(c)\<close> for a one-character \<open>c\<close>: the last index holding it, or -1.\<close>

definition lastIndexOf :: "string \<Rightarrow> char \<Rightarrow> int" where
  "lastIndexOf s c =
     (case filter (\<lambda>i. s ! i = c) (rev [0..<length s]) of
        [] \<Rightarrow> - 1
      | i # _ \<Rightarrow> int i)"

text \<open>
  \<^verbatim>\<open>s.trim()\<close> removes white space and line terminators from both ends; among the
  code units below 256 these are U+0009 to U+000D, U+0020 and U+00A0.
\<close>

definition isWhiteSpace :: "char \<Rightarrow> bool" where
  "isWhiteSpace c =
     (let n = (of_char c :: nat) in (9 \<le> n \<and> n \<le> 13) \<or> n = 32 \<or> n = 160)"

definition trim :: "string \<Rightarrow> string" where
  "trim s = rev (dropWhile isWhiteSpace (rev (dropWhile isWhiteSpace s)))"

text \<open>The decimal digits of a number, as a template literal prints it.\<close>

fun showNat :: "nat \<Rightarrow> string" where
  "showNat n =
     (if n < 10 then [char_of (48 + n)]
      else showNat (n div 10) @ [char_of (48 + n mod 10)])"

declare showNat.simps [simp del]

section \<open>The chunker (EnhancedDocumentProcessor.intelligentChunking)\<close>

record entities =
  amounts :: "string list"
  dates :: "string list"
  organizations :: "string list"
  locations :: "string list"

record chunk =
  c_id :: string
  c_text :: string
  start_index :: int
  end_index :: int
  c_length :: nat
  section_label :: string
  c_keywords :: "string list"
  c_entities :: entities
  chunk_index :: nat
  c_domain :: string
  created_at :: string

text \<open>
  What a chunk is built from besides the text and the loop variables: the three
  analysers of the class (\<^verbatim>\<open>detectSection\<close>, \<^verbatim>\<open>extractKeywords\<close>,
  \<^verbatim>\<open>extractSimpleEntities\<close>, regular-expression matching over the chunk text, which
  no span depends on) and the system clock. \<open>now k\<close> is the value of
  \<^verbatim>\<open>new Date().toISOString()\<close> at the moment chunk number \<open>k\<close> is built.
\<close>

record chunkerEnv =
  detectSection :: "string \<Rightarrow> string \<Rightarrow> string"
  extractKeywords :: "string \<Rightarrow> string list"
  extractSimpleEntities :: "string \<Rightarrow> entities"
  now :: "nat \<Rightarrow> string"

datatype error =
    TypeError string
  | Error string

definition chunkSize :: int where
  "chunkSize = 1000"

definition overlap :: int where
  "overlap = 200"

definition mkChunk :: "chunkerEnv \<Rightarrow> string \<Rightarrow> nat \<Rightarrow> string \<Rightarrow> int \<Rightarrow> int \<Rightarrow> chunk" where
  "mkChunk env domain chunkIndex chunkText startIndex endIndex =
     \<lparr> c_id = ''chunk_'' @ showNat chunkIndex,
       c_text = trim chunkText,
       start_index = startIndex,
       end_index = endIndex,
       c_length = length chunkText,
       section_label = detectSection env chunkText domain,
       c_keywords = extractKeywords env chunkText,
       c_entities = extractSimpleEntities env chunkText,
       chunk_index = chunkIndex,
       c_domain = domain,
       created_at = now env chunkIndex \<rparr>"

text \<open>The variables of the loop: \<^verbatim>\<open>startIndex\<close>, \<^verbatim>\<open>chunkIndex\<close> and the array \<^verbatim>\<open>chunks\<close>.\<close>

record loopState =
  startIndex :: int
  chunkIndex :: nat
  chunks :: "chunk list"

text \<open>
  \<^verbatim>\<open>Math.max(lastPeriod, lastNewline)\<close> over the window's text.
\<close>

definition boundary :: "string \<Rightarrow> int" where
  "boundary chunkText = max (lastIndexOf chunkText CHR ''.'') (lastIndexOf chunkText CHR 0x0A)"

text \<open>
  One pass through the body of the \<^verbatim>\<open>while\<close> loop. \<^verbatim>\<open>endIndex\<close> is declared
  \<^verbatim>\<open>const\<close>, so the assignment \<^verbatim>\<open>endIndex = startIndex + boundary + 1\<close> in the
  sentence-boundary branch does not move the cut: executing it raises a TypeError,
  which leaves the function (the promise is rejected) before any chunk of this pass is
  built. The branch is entered when the window ends before the end of the text and
  \<^verbatim>\<open>boundary > chunkSize * 0.7\<close>, that is \<open>boundary > 700\<close>.
\<close>

definition iteration :: "chunkerEnv \<Rightarrow> string \<Rightarrow> string \<Rightarrow> loopState \<Rightarrow> error + loopState" where
  "iteration env content domain st =
     (let endIndex = min (startIndex st + chunkSize) (int (length content));
          chunkText = substring content (startIndex st) endIndex
      in if endIndex < int (length content) \<and> boundary chunkText > 700
         then Inl (TypeError ''Assignment to constant variable.'')
         else Inr \<lparr> startIndex = endIndex - overlap,
                    chunkIndex = chunkIndex st + 1,
                    chunks = chunks st @
                      [mkChunk env domain (chunkIndex st) chunkText (startIndex st) endIndex] \<rparr>)"

text \<open>
  The loop \<^verbatim>\<open>while (startIndex < content.length)\<close>. Its result is \<open>None\<close> when the
  loop never ends, \<open>Some (Inl e)\<close> when a pass raises \<open>e\<close>, and \<open>Some (Inr chunks)\<close>
  when the loop is left and \<^verbatim>\<open>chunks\<close> is returned.
\<close>

partial_function (option) chunkLoop ::
  "chunkerEnv \<Rightarrow> string \<Rightarrow> string \<Rightarrow> loopState \<Rightarrow> (error + chunk list) option" where
  "chunkLoop env content domain st =
     (if startIndex st < int (length content)
      then (case iteration env content domain st of
              Inl e \<Rightarrow> Some (Inl e)
            | Inr st' \<Rightarrow> chunkLoop env content domain st')
      else Some (Inr (chunks st)))"

definition initialState :: loopState where
  "initialState = \<lparr> startIndex = 0, chunkIndex = 0, chunks = [] \<rparr>"

definition intelligentChunking ::
  "chunkerEnv \<Rightarrow> string \<Rightarrow> string \<Rightarrow> (error + chunk list) option" where
  "intelligentChunking env content domain = chunkLoop env content domain initialState"

text \<open>
  The state of the loop after at most \<open>n\<close> passes (fewer when the loop is left or a
  pass raises earlier): what the array \<^verbatim>\<open>chunks\<close> holds at that moment.
\<close>

fun passes :: "nat \<Rightarrow> chunkerEnv \<Rightarrow> string \<Rightarrow> string \<Rightarrow> loopState \<Rightarrow> error + loopState" where
  "passes 0 env content domain st = Inr st"
| "passes (Suc n) env content domain st =
     (if startIndex st < int (length content)
      then (case iteration env content domain st of
              Inl e \<Rightarrow> Inl e
            | Inr st' \<Rightarrow> passes n env content domain st')
      else Inr st)"

text \<open>
  An environment to evaluate the chunker in: analysers that find nothing and a clock that
  stands still at \<open>t\<close>.
\<close>

definition constEnv :: "string \<Rightarrow> chunkerEnv" where
  "constEnv t =
     \<lparr> detectSection = (\<lambda>text domain. ''general''),
       extractKeywords = (\<lambda>text. []),
       extractSimpleEntities =
         (\<lambda>text. \<lparr> amounts = [], dates = [], organizations = [], locations = [] \<rparr>),
       now = (\<lambda>k. t) \<rparr>"

definition span :: "chunk \<Rightarrow> int \<times> int" where
  "span c = (start_index c, end_index c)"



section \<open>Hybrid search (pinecone.ts, AdvancedPineconeService)\<close>

text \<open>
  The hybrid search converts strings to lower case, and what
  \<^verbatim>\<open>String.prototype.toLowerCase\<close> returns depends on the whole string, not on each
  character alone. The strings of this section are therefore sequences of UTF-16 code
  units, as JavaScript stores them.
\<close>

type_synonym codeUnit = "16 word"

type_synonym jsString = "codeUnit list"

text \<open>
  What the code takes from the platform: \<^verbatim>\<open>toLowerCase\<close> and the arithmetic of
  doubles. The type \<open>'n\<close> stands for the doubles other than NaN in their numeric order
  (with the two zeros taken as one number); \<open>lit64 x\<close> is the double that the numeric
  literal \<open>x\<close> denotes, \<open>mul64\<close> and \<open>add64\<close> are \<^verbatim>\<open>*\<close> and \<^verbatim>\<open>+\<close>,
  which round.
\<close>

record 'n platform =
  toLowerCase :: "jsString \<Rightarrow> jsString"
  lit64 :: "real \<Rightarrow> 'n"
  mul64 :: "'n \<Rightarrow> 'n \<Rightarrow> 'n"
  add64 :: "'n \<Rightarrow> 'n \<Rightarrow> 'n"

text \<open>\<^verbatim>\<open>s.includes(t)\<close>: \<open>t\<close> occurs in \<open>s\<close> at some position.\<close>

fun includesStr :: "'a list \<Rightarrow> 'a list \<Rightarrow> bool" where
  "includesStr [] t = (t = [])"
| "includesStr (c # s) t = (prefix t (c # s) \<or> includesStr s t)"

text \<open>
  The metadata of a match. The code reads \<^verbatim>\<open>text\<close> and \<^verbatim>\<open>keywords\<close> through
  optional chaining, so either may be missing; the other fields of
  \<^verbatim>\<open>VectorMetadata\<close> are carried along unread.
\<close>

record vectorMetadata =
  md_text :: "jsString option"
  md_keywords :: "jsString list option"
  md_other :: "(string \<times> jsvalue) list"

text \<open>A match without a score, or with the score 0 or NaN, has \<open>m_score = None\<close>.\<close>

record 'n pineconeMatch =
  m_id :: jsString
  m_score :: "'n option"
  m_metadata :: "vectorMetadata option"

record 'n searchRequest =
  rq_vector :: "'n list"
  rq_topK :: int
  rq_includeMetadata :: bool
  rq_filter :: "(string \<times> jsvalue) list option"

text \<open>
  The two external services: the embedding model and the Pinecone index. Either call
  may reject, and neither call is wrapped in a \<^verbatim>\<open>try\<close>. The response of the index
  holds \<^verbatim>\<open>matches\<close>, which may be undefined.
\<close>

record 'n pineconeService =
  embedQuery :: "jsString \<Rightarrow> error + 'n list"
  indexQuery :: "'n searchRequest \<Rightarrow> error + 'n pineconeMatch list option"

record 'n searchResult =
  sr_id :: jsString
  sr_score :: 'n
  sr_text :: jsString
  sr_metadata :: "vectorMetadata option"

record 'n hybridResult = "'n searchResult" +
  hybridScore :: 'n

record semanticOptions =
  so_topK :: "int option"
  so_filters :: "(string \<times> jsvalue) list option"
  so_includeMetadata :: "bool option"

definition toSearchResult :: "'n platform \<Rightarrow> 'n pineconeMatch \<Rightarrow> 'n searchResult" where
  "toSearchResult env match =
     \<lparr> sr_id = m_id match,
       sr_score = (case m_score match of None \<Rightarrow> lit64 env 0 | Some sc \<Rightarrow> sc),
       sr_text = (case m_metadata match of
                    None \<Rightarrow> []
                  | Some md \<Rightarrow> (case md_text md of None \<Rightarrow> [] | Some t \<Rightarrow> t)),
       sr_metadata = m_metadata match \<rparr>"

definition semanticSearch ::
  "'n platform \<Rightarrow> 'n pineconeService \<Rightarrow> jsString \<Rightarrow> semanticOptions
     \<Rightarrow> error + 'n searchResult list" where
  "semanticSearch env svc queryText options =
     (let topK = (case so_topK options of None \<Rightarrow> 10 | Some k \<Rightarrow> k);
          filters = (case so_filters options of None \<Rightarrow> [] | Some f \<Rightarrow> f);
          includeMetadata = (case so_includeMetadata options of None \<Rightarrow> True | Some b \<Rightarrow> b)
      in case embedQuery svc queryText of
           Inl e \<Rightarrow> Inl e
         | Inr queryEmbedding \<Rightarrow>
             (case indexQuery svc
                     \<lparr> rq_vector = queryEmbedding,
                       rq_topK = topK,
                       rq_includeMetadata = includeMetadata,
                       rq_filter = (if length filters > 0 then Some filters else None) \<rparr> of
                Inl e \<Rightarrow> Inl e
              | Inr matches \<Rightarrow>
                  Inr (case matches of None \<Rightarrow> [] | Some ms \<Rightarrow> map (toSearchResult env) ms)))"

text \<open>
  The predicate of the keyword filter: some keyword occurs, both sides converted to lower
  case, in the result's text or in one of its stored keywords.
\<close>

definition keywordHit :: "'n platform \<Rightarrow> jsString list \<Rightarrow> 'n searchResult \<Rightarrow> bool" where
  "keywordHit env kws result =
     list_ex (\<lambda>keyword.
        includesStr (toLowerCase env (sr_text result)) (toLowerCase env keyword) \<or>
        (case sr_metadata result of
           None \<Rightarrow> False
         | Some md \<Rightarrow>
             (case md_keywords md of
                None \<Rightarrow> False
              | Some ks \<Rightarrow>
                  list_ex (\<lambda>k. includesStr (toLowerCase env k) (toLowerCase env keyword)) ks)))
      kws"

record 'n hybridOptions =
  ho_semanticWeight :: "'n option"
  ho_keywordWeight :: "'n option"
  ho_topK :: "int option"

definition withHybridScore :: "'n searchResult \<Rightarrow> 'n \<Rightarrow> 'n hybridResult" where
  "withHybridScore result finalScore = searchResult.extend result (hybridResult.fields finalScore)"

text \<open>
  \<^verbatim>\<open>keywordFiltered.includes(result)\<close> compares object references. The results of the
  semantic search are distinct objects, so each is paired with its position in
  \<^verbatim>\<open>semanticResults\<close>, which stands for its reference. The comparator
  \<^verbatim>\<open>b.hybridScore - a.hybridScore\<close> is negative, zero or positive as \<open>b\<close>'s score is
  below, equal to or above \<open>a\<close>'s.
\<close>

definition hybridSearch ::
  "'n::linorder platform \<Rightarrow> 'n pineconeService \<Rightarrow> jsString \<Rightarrow> jsString list
     \<Rightarrow> 'n hybridOptions \<Rightarrow> error + 'n hybridResult list" where
  "hybridSearch env svc queryText kws options =
     (let semanticWeight =
            (case ho_semanticWeight options of None \<Rightarrow> lit64 env 0.7 | Some w \<Rightarrow> w);
          keywordWeight =
            (case ho_keywordWeight options of None \<Rightarrow> lit64 env 0.3 | Some w \<Rightarrow> w);
          topK = (case ho_topK options of None \<Rightarrow> 10 | Some k \<Rightarrow> k)
      in case semanticSearch env svc queryText
                \<lparr> so_topK = Some (topK * 2), so_filters = None, so_includeMetadata = None \<rparr> of
           Inl e \<Rightarrow> Inl e
         | Inr semanticResults \<Rightarrow>
             (let refs = enumerate 0 semanticResults;
                  keywordFiltered = filter (\<lambda>(ref, result). keywordHit env kws result) refs;
                  hybridResults =
                    map (\<lambda>(ref, result).
                           let keywordBoost =
                                 (if List.member (map fst keywordFiltered) ref
                                  then keywordWeight else lit64 env 0);
                               finalScore =
                                 add64 env (mul64 env (sr_score result) semanticWeight) keywordBoost
                           in withHybridScore result finalScore)
                        refs
              in Inr (slice0 (sortDescBy hybridScore hybridResults) topK)))"

text \<open>
  The hybrid mode as the specification words it. Which code units are the same letter but
  for case is left open (\<open>sameLetter\<close>); a keyword appears as a case-insensitive substring
  when some stretch of the text matches it letter by letter. The indicator is 1 when some
  supplied keyword appears so in the chunk text or in a stored keyword, and the combined
  score weighs similarity and indicator.
\<close>

fun caseInsensitivePrefix ::
  "(codeUnit \<Rightarrow> codeUnit \<Rightarrow> bool) \<Rightarrow> jsString \<Rightarrow> jsString \<Rightarrow> bool" where
  "caseInsensitivePrefix sameLetter [] hay = True"
| "caseInsensitivePrefix sameLetter (c # needle) [] = False"
| "caseInsensitivePrefix sameLetter (c # needle) (d # hay) =
     (sameLetter c d \<and> caseInsensitivePrefix sameLetter needle hay)"

fun caseInsensitiveSubstring ::
  "(codeUnit \<Rightarrow> codeUnit \<Rightarrow> bool) \<Rightarrow> jsString \<Rightarrow> jsString \<Rightarrow> bool" where
  "caseInsensitiveSubstring sameLetter needle [] = caseInsensitivePrefix sameLetter needle []"
| "caseInsensitiveSubstring sameLetter needle (d # hay) =
     (caseInsensitivePrefix sameLetter needle (d # hay) \<or>
      caseInsensitiveSubstring sameLetter needle hay)"

definition storedKeywords :: "'n searchResult \<Rightarrow> jsString list" where
  "storedKeywords r =
     (case sr_metadata r of
        None \<Rightarrow> []
      | Some md \<Rightarrow> (case md_keywords md of None \<Rightarrow> [] | Some ks \<Rightarrow> ks))"

definition keywordOverlapIndicator ::
  "'n platform \<Rightarrow> (codeUnit \<Rightarrow> codeUnit \<Rightarrow> bool) \<Rightarrow> jsString list \<Rightarrow> 'n searchResult \<Rightarrow> 'n" where
  "keywordOverlapIndicator env sameLetter kws r =
     (if list_ex (\<lambda>keyword.
           caseInsensitiveSubstring sameLetter keyword (sr_text r) \<or>
           list_ex (caseInsensitiveSubstring sameLetter keyword) (storedKeywords r)) kws
      then lit64 env 1 else lit64 env 0)"

definition combinedScore ::
  "'n platform \<Rightarrow> (codeUnit \<Rightarrow> codeUnit \<Rightarrow> bool) \<Rightarrow> 'n \<Rightarrow> 'n \<Rightarrow> jsString list
     \<Rightarrow> 'n searchResult \<Rightarrow> 'n" where
  "combinedScore env sameLetter semanticWeight keywordWeight kws r =
     add64 env (mul64 env semanticWeight (sr_score r))
               (mul64 env keywordWeight (keywordOverlapIndicator env sameLetter kws r))"

text \<open>
  The hybrid mode as the code has it: in place of a letter-by-letter comparison, the
  keyword converted to lower case must occur in the text converted to lower case.
\<close>

definition lowerCasedSubstring :: "'n platform \<Rightarrow> jsString \<Rightarrow> jsString \<Rightarrow> bool" where
  "lowerCasedSubstring env needle hay = sublist (toLowerCase env needle) (toLowerCase env hay)"

definition lowerCasedIndicator :: "'n platform \<Rightarrow> jsString list \<Rightarrow> 'n searchResult \<Rightarrow> 'n" where
  "lowerCasedIndicator env kws r =
     (if \<exists>keyword \<in> set kws.
           lowerCasedSubstring env keyword (sr_text r) \<or>
           (\<exists>k \<in> set (storedKeywords r). lowerCasedSubstring env keyword k)
      then lit64 env 1 else lit64 env 0)"

definition lowerCasedScore ::
  "'n platform \<Rightarrow> 'n \<Rightarrow> 'n \<Rightarrow> jsString list \<Rightarrow> 'n searchResult \<Rightarrow> 'n" where
  "lowerCasedScore env semanticWeight keywordWeight kws r =
     add64 env (mul64 env semanticWeight (sr_score r))
               (mul64 env keywordWeight (lowerCasedIndicator env kws r))"

text \<open>
  A platform to evaluate the search on. The arithmetic is exact, and agrees with that of
  doubles on the numbers of the examples, which are sums of a few powers of two.
  \<open>exampleLower\<close> is what \<^verbatim>\<open>toLowerCase\<close> returns on the strings of the examples: a
  string of ASCII characters has its capital letters moved up by 32; the Greek word
  of the capital letters omicron, delta, omicron, sigma ends in the final small sigma
  U+03C2, since its sigma follows a letter and ends the word; the capital sigma alone
  becomes the small sigma U+03C3.
\<close>

definition utf16 :: "string \<Rightarrow> jsString" where
  "utf16 s = map (\<lambda>c. of_nat (of_char c)) s"

definition capitalSigma :: jsString where
  "capitalSigma = [0x03A3]"

definition capitalOdos :: jsString where
  "capitalOdos = [0x039F, 0x0394, 0x039F, 0x03A3]"

definition lowerUnit :: "codeUnit \<Rightarrow> codeUnit" where
  "lowerUnit u = (if 0x41 \<le> u \<and> u \<le> 0x5A then u + 0x20 else u)"

definition exampleLower :: "jsString \<Rightarrow> jsString" where
  "exampleLower s =
     (if s = capitalOdos then [0x03BF, 0x03B4, 0x03BF, 0x03C2]
      else if s = capitalSigma then [0x03C3]
      else map lowerUnit s)"

definition examplePlatform :: "real platform" where
  "examplePlatform =
     \<lparr> toLowerCase = exampleLower, lit64 = (\<lambda>x. x), mul64 = (\<lambda>a b. a * b),
       add64 = (\<lambda>a b. a + b) \<rparr>"

text \<open>
  An index that answers every request with the same three matches, and the three
  results the semantic search turns them into.
\<close>

definition threeMatches :: "real pineconeService" where
  "threeMatches =
     \<lparr> embedQuery = (\<lambda>text. Inr [0.5, 0.25]),
       indexQuery = (\<lambda>request. Inr (Some
         [\<lparr> m_id = utf16 ''a'', m_score = Some 0.75,
            m_metadata = Some \<lparr> md_text = Some (utf16 ''Waiting period for cataract surgery''),
                                 md_keywords = Some [utf16 ''waiting''], md_other = [] \<rparr> \<rparr>,
          \<lparr> m_id = utf16 ''b'', m_score = Some 0.5,
            m_metadata = Some \<lparr> md_text = Some (utf16 ''Grace period of thirty days''),
                                 md_keywords = Some [utf16 ''premium''], md_other = [] \<rparr> \<rparr>,
          \<lparr> m_id = utf16 ''c'', m_score = Some 0.25, m_metadata = None \<rparr>])) \<rparr>"

definition threeResults :: "real searchResult list" where
  "threeResults =
     [\<lparr> sr_id = utf16 ''a'', sr_score = 0.75,
        sr_text = utf16 ''Waiting period for cataract surgery'',
        sr_metadata = Some \<lparr> md_text = Some (utf16 ''Waiting period for cataract surgery''),
                             md_keywords = Some [utf16 ''waiting''], md_other = [] \<rparr> \<rparr>,
      \<lparr> sr_id = utf16 ''b'', sr_score = 0.5, sr_text = utf16 ''Grace period of thirty days'',
        sr_metadata = Some \<lparr> md_text = Some (utf16 ''Grace period of thirty days''),
                             md_keywords = Some [utf16 ''premium''], md_other = [] \<rparr> \<rparr>,
      \<lparr> sr_id = utf16 ''c'', sr_score = 0.25, sr_text = [], sr_metadata = None \<rparr>]"

text \<open>An index that holds one chunk, whose text is the Greek word.\<close>

definition odosResult :: "real searchResult" where
  "odosResult =
     \<lparr> sr_id = utf16 ''odos'', sr_score = 1, sr_text = capitalOdos,
       sr_metadata = Some \<lparr> md_text = Some capitalOdos, md_keywords = None, md_other = [] \<rparr> \<rparr>"

definition odosIndex :: "real pineconeService" where
  "odosIndex =
     \<lparr> embedQuery = (\<lambda>text. Inr [0.5, 0.25]),
       indexQuery = (\<lambda>request. Inr (Some
         [\<lparr> m_id = utf16 ''odos'', m_score = Some 1,
            m_metadata = Some \<lparr> md_text = Some capitalOdos, md_keywords = None,
                                 md_other = [] \<rparr> \<rparr>])) \<rparr>"

definition halfHalf :: "int \<Rightarrow> real hybridOptions" where
  "halfHalf k = \<lparr> ho_semanticWeight = Some 0.5, ho_keywordWeight = Some 0.5, ho_topK = Some k \<rparr>"

text \<open>
  A platform whose arithmetic rounds, as that of doubles does, only more coarsely: a
  number is a count of quarters, and a product is rounded down to a quarter. The index
  holds two chunks: the first scores 1 and has no keyword, the second scores a quarter and
  has the keyword.
\<close>

definition quarterPlatform :: "int platform" where
  "quarterPlatform =
     \<lparr> toLowerCase = exampleLower, lit64 = (\<lambda>x. \<lfloor>4 * x\<rfloor>),
       mul64 = (\<lambda>a b. a * b div 4), add64 = (\<lambda>a b. a + b) \<rparr>"

definition tieIndex :: "int pineconeService" where
  "tieIndex =
     \<lparr> embedQuery = (\<lambda>text. Inr [2, 1]),
       indexQuery = (\<lambda>request. Inr (Some
         [\<lparr> m_id = utf16 ''x'', m_score = Some 4,
            m_metadata = Some \<lparr> md_text = Some (utf16 ''Room rent limits''),
                                 md_keywords = None, md_other = [] \<rparr> \<rparr>,
          \<lparr> m_id = utf16 ''y'', m_score = Some 1,
            m_metadata = Some \<lparr> md_text = Some (utf16 ''Grace period of thirty days''),
                                 md_keywords = None, md_other = [] \<rparr> \<rparr>])) \<rparr>"

section \<open>Question processing (api/ai/process/route.ts, MultiAIService)\<close>

record modelConfig =
  endpoint :: string
  maxTokens :: nat
  costPer1kTokens :: real

text \<open>
  The table \<^verbatim>\<open>AI_PROVIDERS\<close>, without the header builders, which the processing of
  questions does not call.
\<close>

definition AI_PROVIDERS :: "(string \<times> (string \<times> modelConfig) list) list" where
  "AI_PROVIDERS =
     [(''openai'',
        [(''gpt-4-turbo'', \<lparr> endpoint = ''https://api.openai.com/v1/chat/completions'',
                              maxTokens = 128000, costPer1kTokens = 0.03 \<rparr>),
         (''gpt-4'', \<lparr> endpoint = ''https://api.openai.com/v1/chat/completions'',
                        maxTokens = 8192, costPer1kTokens = 0.06 \<rparr>),
         (''gpt-3.5-turbo'', \<lparr> endpoint = ''https://api.openai.com/v1/chat/completions'',
                                maxTokens = 16385, costPer1kTokens = 0.002 \<rparr>)]),
      (''anthropic'',
        [(''claude-3-opus'', \<lparr> endpoint = ''https://api.anthropic.com/v1/messages'',
                                maxTokens = 200000, costPer1kTokens = 0.075 \<rparr>),
         (''claude-3-sonnet'', \<lparr> endpoint = ''https://api.anthropic.com/v1/messages'',
                                  maxTokens = 200000, costPer1kTokens = 0.015 \<rparr>),
         (''claude-3-haiku'', \<lparr> endpoint = ''https://api.anthropic.com/v1/messages'',
                                 maxTokens = 200000, costPer1kTokens = 0.0025 \<rparr>)]),
      (''google'',
        [(''gemini-pro'',
            \<lparr> endpoint = ''https://generativelanguage.googleapis.com/v1beta/models/gemini-pro:generateContent'',
              maxTokens = 32768, costPer1kTokens = 0.0025 \<rparr>),
         (''gemini-ultra'',
            \<lparr> endpoint = ''https://generativelanguage.googleapis.com/v1beta/models/gemini-ultra:generateContent'',
              maxTokens = 32768, costPer1kTokens = 0.05 \<rparr>)]),
      (''mistral'',
        [(''mistral-large'', \<lparr> endpoint = ''https://api.mistral.ai/v1/chat/completions'',
                                maxTokens = 32768, costPer1kTokens = 0.024 \<rparr>),
         (''mistral-medium'', \<lparr> endpoint = ''https://api.mistral.ai/v1/chat/completions'',
                                 maxTokens = 32768, costPer1kTokens = 0.0065 \<rparr>)]),
      (''cohere'',
        [(''cohere-command-r-plus'', \<lparr> endpoint = ''https://api.cohere.ai/v1/chat'',
                                        maxTokens = 128000, costPer1kTokens = 0.015 \<rparr>),
         (''cohere-command-r'', \<lparr> endpoint = ''https://api.cohere.ai/v1/chat'',
                                   maxTokens = 128000, costPer1kTokens = 0.005 \<rparr>)])]"

definition getProviderFromModel :: "string \<Rightarrow> string" where
  "getProviderFromModel modelId =
     (if prefix ''gpt-'' modelId then ''openai''
      else if prefix ''claude-'' modelId then ''anthropic''
      else if prefix ''gemini-'' modelId then ''google''
      else if prefix ''mistral-'' modelId then ''mistral''
      else if prefix ''cohere-'' modelId then ''cohere''
      else ''openai'')"

text \<open>
  \<^verbatim>\<open>AI_PROVIDERS[provider]?.models[modelId]\<close>. Reading a property of an object
  finds the object's own keys and, failing that, the members every object inherits from
  \<^verbatim>\<open>Object.prototype\<close>, all of which are functions or objects and so pass the test
  \<^verbatim>\<open>if (!modelConfig)\<close>. An inherited member has no \<^verbatim>\<open>costPer1kTokens\<close>: the
  property reads as \<^verbatim>\<open>undefined\<close>.
\<close>

datatype modelLookup = OwnEntry modelConfig | InheritedMember

definition objectPrototypeKeys :: "string list" where
  "objectPrototypeKeys =
     [''constructor'', ''__proto__'', ''hasOwnProperty'', ''isPrototypeOf'',
      ''propertyIsEnumerable'', ''toLocaleString'', ''toString'', ''valueOf'',
      ''__defineGetter__'', ''__defineSetter__'', ''__lookupGetter__'', ''__lookupSetter__'']"

definition getModelConfig :: "string \<Rightarrow> modelLookup option" where
  "getModelConfig modelId =
     (case map_of AI_PROVIDERS (getProviderFromModel modelId) of
        None \<Rightarrow> None
      | Some models \<Rightarrow>
          (case map_of models modelId of
             Some config \<Rightarrow> Some (OwnEntry config)
           | None \<Rightarrow>
               if List.member objectPrototypeKeys modelId then Some InheritedMember else None))"

fun costPer1kTokensOf :: "modelLookup \<Rightarrow> real option" where
  "costPer1kTokensOf (OwnEntry config) = Some (costPer1kTokens config)"
| "costPer1kTokensOf InheritedMember = None"

record processOptions =
  o_domain :: string
  o_model :: string
  o_temperature :: real
  o_max_tokens :: nat
  o_session_id :: string
  o_advanced_mode :: bool
  o_batch_mode :: bool

text \<open>
  What \<^verbatim>\<open>generateContextualResponse\<close> returns; \<open>rs_details\<close> stands for the fields
  copied unchanged into the result (\<^verbatim>\<open>relevant_clauses\<close>, \<^verbatim>\<open>decision_rationale\<close>,
  \<^verbatim>\<open>compliance_status\<close>, \<^verbatim>\<open>risk_assessment\<close>, \<^verbatim>\<open>recommendations\<close>,
  \<^verbatim>\<open>key_insights\<close>, \<^verbatim>\<open>action_items\<close>).
\<close>

record response =
  rs_answer :: string
  rs_confidence :: real
  rs_sources :: "string list"
  rs_reasoning :: string
  rs_details :: "(string \<times> jsvalue) list"

text \<open>
  The parts of the \<^verbatim>\<open>try\<close> block that are template text and random draws, and the
  clock. The first argument is the index of the question, which tells the calls (and
  their draws) apart. A call that returns \<open>Inl e\<close> raises \<open>e\<close> inside the
  \<^verbatim>\<open>try\<close> block.
\<close>

record aiEnv =
  generateContextualResponse ::
    "nat \<Rightarrow> string \<Rightarrow> string \<Rightarrow> jsvalue list \<Rightarrow> string \<Rightarrow> string \<Rightarrow> error + response"
  generateAdvancedAnalysis :: "nat \<Rightarrow> string \<Rightarrow> string \<Rightarrow> string \<Rightarrow> error + jsvalue"
  elapsedSeconds :: "nat \<Rightarrow> real"
  isoTimestamp :: "nat \<Rightarrow> string"

text \<open>
  The result of a question. A cost is a number or NaN; \<open>None\<close> stands for NaN, which
  is what the cost becomes when \<^verbatim>\<open>costPer1kTokens\<close> is undefined.
\<close>

record questionResult =
  q_id :: string
  question :: string
  answer :: string
  confidence :: real
  sources :: "string list"
  reasoning :: string
  processing_time :: real
  details :: "(string \<times> jsvalue) list"
  timestamp :: string
  tokens_used :: nat
  cost_estimate :: "real option"
  model_used :: string
  provider :: string
  advanced_analysis :: "jsvalue option"
  error_flag :: bool

text \<open>\<^verbatim>\<open>Math.ceil(text.length / 4)\<close>.\<close>

definition estimateTokens :: "string \<Rightarrow> nat" where
  "estimateTokens text = (length text + 3) div 4"

text \<open>How a template literal prints a caught error.\<close>

fun showError :: "error \<Rightarrow> string" where
  "showError (TypeError msg) = ''TypeError: '' @ msg"
| "showError (Error msg) = ''Error: '' @ msg"

definition errorResult ::
  "aiEnv \<Rightarrow> string \<Rightarrow> processOptions \<Rightarrow> nat \<Rightarrow> string \<Rightarrow> error \<Rightarrow> questionResult" where
  "errorResult env q options index prov e =
     \<lparr> q_id = ''q_'' @ o_session_id options @ ''_'' @ showNat index @ ''_error'',
       question = q,
       answer = ''I apologize, but I encountered an error while processing this question with ''
                  @ prov @ ''. Please try again or use a different AI model.'',
       confidence = 0,
       sources = [],
       reasoning = ''Error occurred during '' @ prov @ '' processing: '' @ showError e,
       processing_time = elapsedSeconds env index,
       details = [],
       timestamp = isoTimestamp env index,
       tokens_used = 0,
       cost_estimate = Some 0,
       model_used = o_model options,
       provider = prov,
       advanced_analysis = None,
       error_flag = True \<rparr>"

text \<open>
  The \<^verbatim>\<open>try\<close> block of \<^verbatim>\<open>processIndividualQuestion\<close>: it builds the result of
  a question, or raises.
\<close>

definition tryBlock ::
  "aiEnv \<Rightarrow> string \<Rightarrow> jsvalue list \<Rightarrow> processOptions \<Rightarrow> nat \<Rightarrow> string \<Rightarrow> modelLookup
     \<Rightarrow> error + questionResult" where
  "tryBlock env q documents options index prov config =
     (case generateContextualResponse env index q (o_domain options) documents prov (o_model options) of
        Inl e \<Rightarrow> Inl e
      | Inr rsp \<Rightarrow>
          (let tokensUsed = estimateTokens (q @ rs_answer rsp @ rs_reasoning rsp);
               costEstimate =
                 map_option (\<lambda>cost. real tokensUsed * (cost / 1000)) (costPer1kTokensOf config)
           in case (if o_advanced_mode options
                    then map_sum id Some (generateAdvancedAnalysis env index q (o_domain options) prov)
                    else Inr None) of
                Inl e \<Rightarrow> Inl e
              | Inr advanced \<Rightarrow>
                  Inr \<lparr> q_id = ''q_'' @ o_session_id options @ ''_'' @ showNat index,
                        question = q,
                        answer = rs_answer rsp,
                        confidence = rs_confidence rsp,
                        sources = rs_sources rsp,
                        reasoning = rs_reasoning rsp,
                        processing_time = elapsedSeconds env index,
                        details = rs_details rsp,
                        timestamp = isoTimestamp env index,
                        tokens_used = tokensUsed,
                        cost_estimate = costEstimate,
                        model_used = o_model options,
                        provider = prov,
                        advanced_analysis = advanced,
                        error_flag = False \<rparr>))"

text \<open>
  \<^verbatim>\<open>processIndividualQuestion\<close>: whatever the \<^verbatim>\<open>try\<close> block raises is caught
  and turned into the error result. The method itself never raises.
\<close>

definition processIndividualQuestion ::
  "aiEnv \<Rightarrow> string \<Rightarrow> jsvalue list \<Rightarrow> processOptions \<Rightarrow> nat \<Rightarrow> string \<Rightarrow> modelLookup
     \<Rightarrow> questionResult" where
  "processIndividualQuestion env q documents options index prov config =
     (case tryBlock env q documents options index prov config of
        Inl e \<Rightarrow> errorResult env q options index prov e
      | Inr result \<Rightarrow> result)"

text \<open>
  \<^verbatim>\<open>Promise.all\<close> over promises that never reject. \<open>order\<close> lists the indices of
  the promises in the order in which they are fulfilled; each fulfilment stores the value
  in the slot of its own index. The combined promise is fulfilled, with the slots in
  index order, once every slot is filled; until then it is pending (\<open>None\<close>).
\<close>

definition promiseAll :: "nat list \<Rightarrow> 'a list \<Rightarrow> 'a list option" where
  "promiseAll order vals =
     (let slots = foldl (\<lambda>sl i. sl[i := Some (vals ! i)]) (replicate (length vals) None) order
      in if list_all (\<lambda>sl. sl \<noteq> None) slots then Some (map the slots) else None)"

record sessionMetadata =
  sm_processing_time :: real
  total_questions :: nat
  total_tokens :: nat
  total_cost :: "real option"
  sm_model_used :: string
  provider_used :: string
  sm_session_id :: string
  sm_advanced_mode :: bool
  sm_batch_mode :: bool

record session =
  success :: bool
  results :: "questionResult list"
  metadata :: sessionMetadata

text \<open>
  \<^verbatim>\<open>processQuestions\<close>. An unsupported model raises inside the \<^verbatim>\<open>try\<close> block
  and is raised again, wrapped, by the \<^verbatim>\<open>catch\<close> block. In batch mode every
  question is started, in input order, and the results are awaited through
  \<^verbatim>\<open>Promise.all\<close>; otherwise the questions are processed one after the other and
  each result is pushed in turn. \<open>totalSeconds\<close> is the time the whole call took.
\<close>

definition processQuestions ::
  "aiEnv \<Rightarrow> real \<Rightarrow> nat list \<Rightarrow> string list \<Rightarrow> jsvalue list \<Rightarrow> processOptions
     \<Rightarrow> (error + session) option" where
  "processQuestions env totalSeconds order questions documents options =
     (let prov = getProviderFromModel (o_model options)
      in case getModelConfig (o_model options) of
           None \<Rightarrow>
             Some (Inl (Error (''Multi-AI processing failed: '' @
                          showError (Error (''Unsupported model: '' @ o_model options)))))
         | Some config \<Rightarrow>
             (case (if o_batch_mode options
                    then promiseAll order
                           (map (\<lambda>(index, q).
                                   processIndividualQuestion env q documents options index prov config)
                                (enumerate 0 questions))
                    else Some (foldl (\<lambda>rs i. rs @
                                   [processIndividualQuestion env (questions ! i) documents options i
                                      prov config])
                                 [] [0..<length questions])) of
                None \<Rightarrow> None
              | Some rs \<Rightarrow>
                  Some (Inr \<lparr> success = True,
                              results = rs,
                              metadata =
                                \<lparr> sm_processing_time = totalSeconds,
                                  total_questions = length questions,
                                  total_tokens = foldl (\<lambda>sum r. sum + tokens_used r) 0 rs,
                                  total_cost =
                                    foldl (\<lambda>sum r.
                                             case (sum, cost_estimate r) of
                                               (Some a, Some b) \<Rightarrow> Some (a + b)
                                             | _ \<Rightarrow> None)
                                          (Some 0) rs,
                                  sm_model_used = o_model options,
                                  provider_used = prov,
                                  sm_session_id = o_session_id options,
                                  sm_advanced_mode = o_advanced_mode options,
                                  sm_batch_mode = o_batch_mode options \<rparr> \<rparr>)))"

text \<open>
  An environment to evaluate the service in: the response to the question at index 1
  raises, every other question is answered.
\<close>

definition secondFails :: aiEnv where
  "secondFails =
     \<lparr> generateContextualResponse =
         (\<lambda>index q domain documents prov model.
            if index = 1 then Inl (TypeError ''question.toLowerCase is not a function'')
            else Inr \<lparr> rs_answer = ''The grace period is 30 days.'',
                       rs_confidence = 0.9,
                       rs_sources = [''Policy Document''],
                       rs_reasoning = ''Template match.'',
                       rs_details = [] \<rparr>),
       generateAdvancedAnalysis = (\<lambda>index q domain prov. Inr JNull),
       elapsedSeconds = (\<lambda>index. 1),
       isoTimestamp = (\<lambda>index. ''2024-01-01T00:00:00.000Z'') \<rparr>"

definition gpt4Options :: "bool \<Rightarrow> processOptions" where
  "gpt4Options batch =
     \<lparr> o_domain = ''insurance'', o_model = ''gpt-4'', o_temperature = 0.1, o_max_tokens = 2000,
       o_session_id = ''s1'', o_advanced_mode = False, o_batch_mode = batch \<rparr>"

section \<open>Properties of the array helpers\<close>

text \<open>
  The sort keeps the elements, orders them by non-increasing score and keeps the elements
  of equal score in their order.
\<close>

lemma sortDesc_props:
  "mset (sortDesc f xs) = mset xs"
  "sorted_wrt (\<lambda>a b. f b \<le> f a) (sortDesc f xs)"
  "filter (\<lambda>x. f x = v) (sortDesc f xs) = filter (\<lambda>x. f x = v) xs"
proof -
  show "mset (sortDesc f xs) = mset xs" by (simp add: sortDesc_def)
  have "sorted (map (\<lambda>x. - f x) (sortDesc f xs))"
    unfolding sortDesc_def by (rule sorted_sort_key)
  then show "sorted_wrt (\<lambda>a b. f b \<le> f a) (sortDesc f xs)"
    by (simp add: sorted_map)
  have "filter (\<lambda>x. - f x = - v) (sort_key (\<lambda>x. - f x) xs) = filter (\<lambda>x. - f x = - v) xs"
    by (rule sort_key_stable)
  then show "filter (\<lambda>x. f x = v) (sortDesc f xs) = filter (\<lambda>x. f x = v) xs"
    by (simp add: sortDesc_def)
qed

lemma slice0_sorted_wrt: "sorted_wrt P xs \<Longrightarrow> sorted_wrt P (slice0 xs k)"
  by (simp add: slice0_def sorted_wrt_take)

lemma sortDescBy_props:
  "mset (sortDescBy f xs) = mset xs"
  "sorted_wrt (\<lambda>a b. f b \<le> f a) (sortDescBy f xs)"
  "filter (\<lambda>x. f x = v) (sortDescBy f xs) = filter (\<lambda>x. f x = v) xs"
proof -
  show "mset (sortDescBy f xs) = mset xs" by (simp add: sortDescBy_def)
  have "sorted (map f (sort_key f (rev xs)))" by (rule sorted_sort_key)
  then have "sorted_wrt (\<lambda>a b. f a \<le> f b) (sort_key f (rev xs))"
    by (simp add: sorted_map)
  then show "sorted_wrt (\<lambda>a b. f b \<le> f a) (sortDescBy f xs)"
    by (simp add: sortDescBy_def sorted_wrt_rev)
  have "filter (\<lambda>x. f x = v) (sort_key f (rev xs)) = filter (\<lambda>x. f x = v) (rev xs)"
    by (rule sort_key_stable)
  then show "filter (\<lambda>x. f x = v) (sortDescBy f xs) = filter (\<lambda>x. f x = v) xs"
    by (simp add: sortDescBy_def rev_filter [symmetric])
qed

section \<open>Properties of the vector database\<close>

lemma update_update_same: "AList.update k v (AList.update k v al) = AList.update k v al"
  by (induction al) auto

lemma map_of_update_same: "map_of (AList.update k v al) k = Some v"
  by (simp add: update_conv')

text \<open>
  C6. Upsert is idempotent by id: upserting the same entry a second time leaves the
  database (its entries and their iteration order) as the first upsert left it, and after
  an upsert the entry's id is bound to exactly the upserted vector and metadata, whatever
  was stored under that id before.
\<close>

theorem upsert_idempotent:
  "upsert [e] (upsert [e] db) = upsert [e] db \<and>
   map_of (upsert [e] db) (v_id e) = Some e"
  by (simp add: upsert_def update_update_same map_of_update_same)

text \<open>
  What the search does guarantee: its results are in non-increasing order of score, each
  satisfies the filter, and there are no more of them than stored entries.
\<close>

lemma filteredResults_ordered:
  "sorted_wrt (\<lambda>a b. score b \<le> score a) (filteredResults rnd db queryEmbedding topK filters) \<and>
   list_all (\<lambda>r. passesFilters filters (v_metadata r))
     (filteredResults rnd db queryEmbedding topK filters) \<and>
   length (filteredResults rnd db queryEmbedding topK filters) \<le> length db"
proof -
  let ?results = "map (\<lambda>(i, vector). withScore vector (rnd i * 0.3 + 0.7)) (enumerate 0 (map snd db))"
  have "sorted_wrt (\<lambda>a b. score b \<le> score a) (slice0 (sortDesc score ?results) topK)"
    by (rule slice0_sorted_wrt) (rule sortDesc_props(2))
  then have "sorted_wrt (\<lambda>a b. score b \<le> score a) (filteredResults rnd db queryEmbedding topK filters)"
    unfolding filteredResults_def query_def Let_def by (rule sorted_wrt_filter)
  moreover have "length (filteredResults rnd db queryEmbedding topK filters)
      \<le> length (slice0 (sortDesc score ?results) topK)"
    unfolding filteredResults_def query_def Let_def by (rule length_filter_le)
  moreover have "length (slice0 (sortDesc score ?results) topK) \<le> length db"
    by (auto simp: slice0_def sortDesc_def)
  ultimately show ?thesis
    by (simp add: filteredResults_def list_all_iff)
qed

text \<open>
  C2. The claim: the search returns \<open>min topK m\<close> results, \<open>m\<close> the number of entries
  that satisfy the filter, chosen as the best \<open>topK\<close> among those entries. The handler
  cuts the list to \<open>topK\<close> first and filters afterwards. On the sample data, with a draw
  that ranks chunk_1 first, \<open>topK = 1\<close> and the filter \<open>type = coverage_benefits\<close>, it
  returns nothing although chunk_3 and chunk_5 satisfy the filter.
\<close>

theorem top_k_is_taken_before_the_filter:
  "filteredResults (\<lambda>i. if i = 0 then 9 / 10 else 1 / 10) (initializeWithSampleData embedding)
       queryEmbedding 1 [(''type'', JStr ''coverage_benefits'')] = [] \<and>
   map fst (filter (\<lambda>(k, v). passesFilters [(''type'', JStr ''coverage_benefits'')] (v_metadata v))
       (initializeWithSampleData embedding)) = [''chunk_3'', ''chunk_5'']"
  by (simp add: filteredResults_def query_def initializeWithSampleData_def sampleChunks_def
      slice0_def sortDesc_def withScore_def vector.defs scored.defs passesFilters_def Let_def)

text \<open>
  C3. The claim: a vector whose dimension differs from the index's is refused with a
  DimensionMismatch error and the index stays as it was. The sample data holds vectors of
  dimension 1536; upserting a vector of dimension 2 under the id chunk_1 changes the
  index, which then holds the two values under that id.
\<close>

theorem mismatched_vector_is_stored:
  "(let db = initializeWithSampleData (\<lambda>i. replicate 1536 (1 / 2));
        v = \<lparr> v_id = ''chunk_1'', v_values = [1, 2], v_metadata = [] \<rparr>
    in list_all (\<lambda>(k, e). length (v_values e) = 1536) db \<and>
       length (v_values v) = 2 \<and>
       upsert [v] db \<noteq> db \<and>
       map_option v_values (map_of (upsert [v] db) ''chunk_1'') = Some [1, 2])"
proof -
  let ?db = "initializeWithSampleData (\<lambda>i. replicate 1536 (1 / 2))"
  let ?v = "\<lparr> v_id = ''chunk_1'', v_values = [1, 2 :: real], v_metadata = [] \<rparr>"
  have stored: "list_all (\<lambda>(k, e). length (v_values e) = 1536) ?db"
    by (simp add: initializeWithSampleData_def sampleChunks_def)
  have new: "map_option v_values (map_of (upsert [?v] ?db) ''chunk_1'') = Some [1, 2]"
    by (simp add: upsert_def update_conv')
  have old: "map_option (length \<circ> v_values) (map_of ?db ''chunk_1'') = Some 1536"
    by (simp add: initializeWithSampleData_def sampleChunks_def)
  have "upsert [?v] ?db \<noteq> ?db"
  proof
    assume "upsert [?v] ?db = ?db"
    with new have "map_option v_values (map_of ?db ''chunk_1'') = Some [1, 2]" by simp
    then have "map_option (length \<circ> v_values) (map_of ?db ''chunk_1'') = Some 2"
      by (cases "map_of ?db ''chunk_1''") auto
    with old show False by simp
  qed
  with stored new show ?thesis by (simp add: Let_def)
qed

text \<open>
  C3, amended. The database checks no dimension. An upsert of a vector of any dimension
  stores its values under its id as they are, neither truncated nor padded, and leaves
  every other id as it was; a query returns the same results for any two query vectors,
  whatever their dimensions.
\<close>

theorem upsert_stores_any_dimension:
  "map_option v_values (map_of (upsert [e] db) (v_id e)) = Some (v_values e) \<and>
   (\<forall>k. k \<noteq> v_id e \<longrightarrow> map_of (upsert [e] db) k = map_of db k) \<and>
   query rnd (upsert [e] db) q1 topK = query rnd (upsert [e] db) q2 topK"
  by (simp add: upsert_def update_conv' query_def)

theorem upsert_stores_any_dimension_witness:
  "(let db = initializeWithSampleData (\<lambda>i. replicate 1536 (1 / 2));
        v = \<lparr> v_id = ''chunk_1'', v_values = [1, 2], v_metadata = [] \<rparr>
    in map_option v_values (map_of (upsert [v] db) ''chunk_1'') = Some [1, 2] \<and>
       map_of (upsert [v] db) ''chunk_2'' = map_of db ''chunk_2'' \<and>
       query (\<lambda>i. 1 / 2) (upsert [v] db) [1, 2] 5 = query (\<lambda>i. 1 / 2) (upsert [v] db) [1, 2, 3] 5)"
  using upsert_stores_any_dimension
    [of "\<lparr> v_id = ''chunk_1'', v_values = [1, 2], v_metadata = [] \<rparr>"
        "initializeWithSampleData (\<lambda>i. replicate 1536 (1 / 2))" "\<lambda>i. 1 / 2" "[1, 2]" 5 "[1, 2, 3]"]
  by (simp add: Let_def)

section \<open>Properties of the chunker\<close>

subsection \<open>What one pass does to the window\<close>

lemma iteration_Inr:
  assumes "iteration env content domain st = Inr st'"
  shows "startIndex st' = min (startIndex st + 1000) (int (length content)) - 200"
    and "chunkIndex st' = chunkIndex st + 1"
    and "length (chunks st') = length (chunks st) + 1"
  using assms by (auto simp: iteration_def Let_def chunkSize_def overlap_def split: if_splits)

lemma iteration_start_below:
  "iteration env content domain st = Inr st' \<Longrightarrow> startIndex st' < int (length content)"
  by (simp add: iteration_Inr(1))

lemma iteration_last_window:
  assumes "int (length content) \<le> startIndex st + 1000"
  shows "\<exists>st'. iteration env content domain st = Inr st' \<and>
           startIndex st' = int (length content) - 200"
  using assms by (simp add: iteration_def Let_def chunkSize_def overlap_def)

subsection \<open>The loop is never left once it is entered\<close>

text \<open>
  A pass ends with \<open>startIndex = endIndex - 200\<close> and \<open>endIndex\<close> is at most the length
  of the text, so the loop condition holds again after every pass. By fixpoint induction,
  the loop entered once yields no chunk list.
\<close>

lemma chunkLoop_never_returns:
  assumes "chunkLoop env content domain st = Some y"
  shows "startIndex st < int (length content) \<longrightarrow> (\<forall>cs. y \<noteq> Inr cs)"
proof (rule chunkLoop.raw_induct
    [where P = "\<lambda>env content domain st y.
       startIndex st < int (length content) \<longrightarrow> (\<forall>cs. y \<noteq> Inr cs)", OF _ assms])
  fix loop env content domain st y
  assume IH: "\<And>env content domain st y. loop env content domain st = Some y \<Longrightarrow>
                startIndex st < int (length content) \<longrightarrow> (\<forall>cs. y \<noteq> Inr cs)"
    and step: "(if startIndex st < int (length content)
                then case iteration env content domain st of
                       Inl e \<Rightarrow> Some (Inl e)
                     | Inr st' \<Rightarrow> loop env content domain st'
                else Some (Inr (chunks st))) = Some y"
  show "startIndex st < int (length content) \<longrightarrow> (\<forall>cs. y \<noteq> Inr cs)"
  proof
    assume enter: "startIndex st < int (length content)"
    show "\<forall>cs. y \<noteq> Inr cs"
    proof (cases "iteration env content domain st")
      case (Inl e)
      with step enter show ?thesis by auto
    next
      case (Inr st')
      with step enter have "loop env content domain st' = Some y" by simp
      moreover have "startIndex st' < int (length content)"
        using Inr by (rule iteration_start_below)
      ultimately show ?thesis using IH by blast
    qed
  qed
qed

text \<open>
  A window that reaches the end of the text never takes the sentence-boundary branch, so
  from there on no pass raises either: the loop runs forever.
\<close>

lemma chunkLoop_last_window_diverges:
  assumes "chunkLoop env content domain st = Some y"
  shows "\<not> (startIndex st < int (length content) \<and> int (length content) \<le> startIndex st + 1000)"
proof (rule chunkLoop.raw_induct
    [where P = "\<lambda>env content domain st y.
       \<not> (startIndex st < int (length content) \<and> int (length content) \<le> startIndex st + 1000)",
     OF _ assms])
  fix loop env content domain st y
  assume IH: "\<And>env content domain st y. loop env content domain st = Some y \<Longrightarrow>
     \<not> (startIndex st < int (length content) \<and> int (length content) \<le> startIndex st + 1000)"
    and step: "(if startIndex st < int (length content)
                then case iteration env content domain st of
                       Inl e \<Rightarrow> Some (Inl e)
                     | Inr st' \<Rightarrow> loop env content domain st'
                else Some (Inr (chunks st))) = Some y"
  show "\<not> (startIndex st < int (length content) \<and> int (length content) \<le> startIndex st + 1000)"
  proof
    assume inv: "startIndex st < int (length content) \<and> int (length content) \<le> startIndex st + 1000"
    then have "int (length content) \<le> startIndex st + 1000" by simp
    from iteration_last_window [OF this, of env domain]
    obtain st' where st': "iteration env content domain st = Inr st'"
      "startIndex st' = int (length content) - 200" by blast
    with step inv have "loop env content domain st' = Some y" by simp
    from IH [OF this] show False by (simp add: st')
  qed
qed

text \<open>The first \<open>n\<close> passes are a prefix of the run of the loop.\<close>

lemma passes_chunkLoop:
  "passes n env content domain st = Inr st' \<Longrightarrow>
     chunkLoop env content domain st = chunkLoop env content domain st'"
proof (induction n arbitrary: st)
  case 0
  then show ?case by simp
next
  case (Suc n)
  show ?case
  proof (cases "startIndex st < int (length content)")
    case True
    with Suc.prems obtain st1 where st1: "iteration env content domain st = Inr st1"
      and rest: "passes n env content domain st1 = Inr st'"
      by (auto split: sum.splits)
    have "chunkLoop env content domain st = chunkLoop env content domain st1"
      using True st1 by (subst chunkLoop.simps) simp
    with Suc.IH [OF rest] show ?thesis by simp
  next
    case False
    with Suc.prems show ?thesis by simp
  qed
qed

text \<open>
  C1. The claim: a non-empty text shorter than 1000 characters yields exactly one chunk.
  On the code the first pass builds that chunk, and then sets \<open>startIndex\<close> to
  \<open>length - 200\<close>, which is below the length: the loop goes on building chunks and the
  function never returns.
\<close>

theorem short_text_never_returns:
  assumes "0 < length content" and "length content < 1000"
  shows "intelligentChunking env content domain = None"
proof (cases "intelligentChunking env content domain")
  case None
  then show ?thesis .
next
  case (Some y)
  then have "chunkLoop env content domain initialState = Some y"
    by (simp add: intelligentChunking_def)
  from chunkLoop_last_window_diverges [OF this] assms
  show ?thesis by (simp add: initialState_def)
qed

theorem short_text_never_returns_witness:
  "0 < length ''a'' \<and> length ''a'' < 1000 \<and>
   intelligentChunking (constEnv ''2024-01-01T00:00:00.000Z'') ''a'' ''insurance'' = None"
  using short_text_never_returns
    [of "''a''" "constEnv ''2024-01-01T00:00:00.000Z''" "''insurance''"]
  by simp

text \<open>
  C10. The claim: every pass moves \<open>startIndex\<close> strictly forward, so the loop ends and a
  finite chunk list is returned. On the code, for every non-empty text the function
  returns no chunk list, and a pass that starts at \<open>length - 200\<close> ends with
  \<open>startIndex\<close> where it was.
\<close>

theorem loop_start_does_not_advance:
  assumes "content \<noteq> []"
  shows "(\<forall>cs. intelligentChunking env content domain \<noteq> Some (Inr cs)) \<and>
         (\<forall>st. startIndex st = int (length content) - 200 \<longrightarrow>
            (\<exists>st'. iteration env content domain st = Inr st' \<and> startIndex st' = startIndex st))"
proof
  show "\<forall>cs. intelligentChunking env content domain \<noteq> Some (Inr cs)"
  proof
    fix cs
    show "intelligentChunking env content domain \<noteq> Some (Inr cs)"
    proof
      assume "intelligentChunking env content domain = Some (Inr cs)"
      then have "chunkLoop env content domain initialState = Some (Inr cs)"
        by (simp add: intelligentChunking_def)
      from chunkLoop_never_returns [OF this] assms show False
        by (simp add: initialState_def)
    qed
  qed
next
  show "\<forall>st. startIndex st = int (length content) - 200 \<longrightarrow>
            (\<exists>st'. iteration env content domain st = Inr st' \<and> startIndex st' = startIndex st)"
  proof (intro allI impI)
    fix st :: loopState
    assume at: "startIndex st = int (length content) - 200"
    then have "int (length content) \<le> startIndex st + 1000" by simp
    from iteration_last_window [OF this, of env domain] at
    show "\<exists>st'. iteration env content domain st = Inr st' \<and> startIndex st' = startIndex st"
      by simp
  qed
qed

theorem loop_start_does_not_advance_witness:
  "''a'' \<noteq> [] \<and>
   (\<forall>cs. intelligentChunking (constEnv ''2024-01-01T00:00:00.000Z'') ''a'' ''insurance''
            \<noteq> Some (Inr cs)) \<and>
   (\<exists>st'. iteration (constEnv ''2024-01-01T00:00:00.000Z'') ''a'' ''insurance''
             \<lparr> startIndex = - 199, chunkIndex = 1, chunks = [] \<rparr> = Inr st' \<and>
           startIndex st' = - 199)"
proof -
  have ne: "''a'' \<noteq> []" by simp
  from loop_start_does_not_advance
    [OF ne, of "constEnv ''2024-01-01T00:00:00.000Z''" "''insurance''"]
  have all: "\<forall>cs. intelligentChunking (constEnv ''2024-01-01T00:00:00.000Z'') ''a'' ''insurance''
                    \<noteq> Some (Inr cs)"
    and step: "\<forall>st. startIndex st = int (length ''a'') - 200 \<longrightarrow>
                 (\<exists>st'. iteration (constEnv ''2024-01-01T00:00:00.000Z'') ''a'' ''insurance'' st
                          = Inr st' \<and> startIndex st' = startIndex st)"
    by blast+
  from step have "\<exists>st'. iteration (constEnv ''2024-01-01T00:00:00.000Z'') ''a'' ''insurance''
             \<lparr> startIndex = - 199, chunkIndex = 1, chunks = [] \<rparr> = Inr st' \<and>
           startIndex st' = startIndex \<lparr> startIndex = - 199, chunkIndex = 1, chunks = [] \<rparr>"
    by simp
  then have "\<exists>st'. iteration (constEnv ''2024-01-01T00:00:00.000Z'') ''a'' ''insurance''
             \<lparr> startIndex = - 199, chunkIndex = 1, chunks = [] \<rparr> = Inr st' \<and>
           startIndex st' = - 199"
    by simp
  with ne all show ?thesis by blast
qed

text \<open>
  C4. The claim: the spans cover the text without gaps and overlap only in the window a
  chunk shares with the chunk before it. On the one-character text the first three passes
  build the spans (0, 1), (-199, 1) and (-199, 1): a start offset outside the text, and a
  third chunk that lies over the first, which is not the chunk before it.
\<close>

theorem spans_of_one_char_text:
  "map_sum id (\<lambda>st. map span (chunks st)) (passes 3 env ''a'' domain initialState)
     = Inr [(0, 1), (- 199, 1), (- 199, 1)]"
  by (simp add: eval_nat_numeral iteration_def initialState_def chunkSize_def overlap_def
      substring_def boundary_def lastIndexOf_def mkChunk_def span_def Let_def)

subsection \<open>The clock\<close>







lemma empty_text_returns_no_chunks: "intelligentChunking env [] domain = Some (Inr [])"
  unfolding intelligentChunking_def
  by (subst chunkLoop.simps) (simp add: initialState_def)


section \<open>Properties of hybrid search\<close>

text \<open>
  The filter of the code says that the keyword in lower case occurs in the text in lower
  case, and the boost it grants is the keyword weight times the indicator of that.
\<close>

lemma includesStr_sublist: "includesStr s t = sublist t s"
  by (induction s) (simp_all add: sublist_Cons_right)

lemma stored_hit:
  "(case sr_metadata r of
      None \<Rightarrow> False
    | Some md \<Rightarrow>
        (case md_keywords md of
           None \<Rightarrow> False
         | Some ks \<Rightarrow>
             list_ex (\<lambda>k. includesStr (toLowerCase env k) (toLowerCase env keyword)) ks))
   = (\<exists>k \<in> set (storedKeywords r). lowerCasedSubstring env keyword k)"
  by (auto simp: storedKeywords_def lowerCasedSubstring_def includesStr_sublist list_ex_iff
      split: option.split)

lemma keywordHit_iff:
  "keywordHit env kws r =
     (\<exists>keyword \<in> set kws.
        lowerCasedSubstring env keyword (sr_text r) \<or>
        (\<exists>k \<in> set (storedKeywords r). lowerCasedSubstring env keyword k))"
  unfolding keywordHit_def stored_hit list_ex_iff
  by (simp add: lowerCasedSubstring_def includesStr_sublist)

lemma keywordHit_indicator:
  "lowerCasedIndicator env kws r = (if keywordHit env kws r then lit64 env 1 else lit64 env 0)"
  unfolding lowerCasedIndicator_def keywordHit_iff by (rule refl)

lemma member_filtered_refs:
  assumes "(ref, result) \<in> set (enumerate 0 xs)"
  shows "List.member (map fst (filter (\<lambda>(ref, result). P result) (enumerate 0 xs))) ref = P result"
proof -
  from assms have ref: "ref < length xs" and res: "xs ! ref = result"
    by (auto simp: in_set_enumerate_eq)
  have "List.member (map fst (filter (\<lambda>(ref, result). P result) (enumerate 0 xs))) ref
        = (\<exists>r. (ref, r) \<in> set (enumerate 0 xs) \<and> P r)"
    by (force simp: image_iff)
  also have "\<dots> = P result"
    using ref res by (auto simp: in_set_enumerate_eq)
  finally show ?thesis .
qed

lemma map_refs:
  assumes "\<And>ref result. (ref, result) \<in> set (enumerate 0 xs) \<Longrightarrow> g ref result = f result"
  shows "map (\<lambda>(ref, result). g ref result) (enumerate 0 xs) = map f xs"
proof -
  have "map (\<lambda>(ref, result). g ref result) (enumerate 0 xs)
        = map (\<lambda>(ref, result). f result) (enumerate 0 xs)"
    using assms by (intro map_cong refl) auto
  also have "\<dots> = map f xs"
    by (rule nth_equalityI) (simp_all add: nth_enumerate_eq)
  finally show ?thesis .
qed

lemma hybridSearch_eq:
  fixes env :: "'n::linorder platform"
  assumes "semanticSearch env svc queryText
             \<lparr> so_topK = Some (topK * 2), so_filters = None, so_includeMetadata = None \<rparr>
           = Inr candidates"
    and "semanticWeight =
           (case ho_semanticWeight options of None \<Rightarrow> lit64 env 0.7 | Some w \<Rightarrow> w)"
    and "keywordWeight =
           (case ho_keywordWeight options of None \<Rightarrow> lit64 env 0.3 | Some w \<Rightarrow> w)"
    and "topK = (case ho_topK options of None \<Rightarrow> 10 | Some k \<Rightarrow> k)"
    and comm: "\<And>a b. mul64 env a b = mul64 env b a"
    and one: "mul64 env keywordWeight (lit64 env 1) = keywordWeight"
    and zero: "mul64 env keywordWeight (lit64 env 0) = lit64 env 0"
  shows "hybridSearch env svc queryText kws options =
           Inr (slice0 (sortDescBy hybridScore
                  (map (\<lambda>r. withHybridScore r (lowerCasedScore env semanticWeight keywordWeight kws r))
                       candidates)) topK)"
proof -
  have refs: "map (\<lambda>(ref, result).
               withHybridScore result
                 (add64 env (mul64 env (sr_score result) semanticWeight)
                  (if List.member (map fst (filter (\<lambda>(ref, result). keywordHit env kws result)
                                              (enumerate 0 candidates))) ref
                   then keywordWeight else lit64 env 0)))
            (enumerate 0 candidates)
        = map (\<lambda>r. withHybridScore r (lowerCasedScore env semanticWeight keywordWeight kws r))
              candidates"
  proof (rule map_refs)
    fix ref result
    assume mem: "(ref, result) \<in> set (enumerate 0 candidates)"
    note hit = member_filtered_refs [OF mem, of "keywordHit env kws"]
    have "add64 env (mul64 env (sr_score result) semanticWeight)
            (if keywordHit env kws result then keywordWeight else lit64 env 0)
          = lowerCasedScore env semanticWeight keywordWeight kws result"
      by (simp add: lowerCasedScore_def keywordHit_indicator one zero
          comm [of "sr_score result" semanticWeight])
    then show "withHybridScore result
            (add64 env (mul64 env (sr_score result) semanticWeight)
             (if List.member (map fst (filter (\<lambda>(ref, result). keywordHit env kws result)
                                         (enumerate 0 candidates))) ref
              then keywordWeight else lit64 env 0))
          = withHybridScore result (lowerCasedScore env semanticWeight keywordWeight kws result)"
      unfolding hit by (rule arg_cong)
  qed
  show ?thesis
    unfolding hybridSearch_def Let_def assms(2-4) [symmetric]
    by (simp only: assms(1) sum.case refs)
qed

lemma withHybridScore_fields:
  "searchResult.truncate (withHybridScore r x) = r"
  "hybridScore (withHybridScore r x) = x"
  by (simp_all add: withHybridScore_def searchResult.defs hybridResult.defs)

lemma slice0_take: "0 \<le> k \<Longrightarrow> slice0 xs k = take (nat k) xs"
  by (simp add: slice0_def)

lemma examplePlatform_laws:
  "mul64 examplePlatform a b = mul64 examplePlatform b a"
  "mul64 examplePlatform w (lit64 examplePlatform 1) = w"
  "mul64 examplePlatform w (lit64 examplePlatform 0) = lit64 examplePlatform 0"
  by (simp_all add: examplePlatform_def)

lemma halfHalf_defaults:
  "(1 / 2 :: real) =
     (case ho_semanticWeight (halfHalf k) of None \<Rightarrow> lit64 examplePlatform 0.7 | Some w \<Rightarrow> w)"
  "(1 / 2 :: real) =
     (case ho_keywordWeight (halfHalf k) of None \<Rightarrow> lit64 examplePlatform 0.3 | Some w \<Rightarrow> w)"
  "k = (case ho_topK (halfHalf k) of None \<Rightarrow> 10 | Some k \<Rightarrow> k)"
  by (simp_all add: halfHalf_def)

lemma threeMatches_semantic:
  "semanticSearch examplePlatform threeMatches q
     \<lparr> so_topK = Some k, so_filters = None, so_includeMetadata = None \<rparr>
     = Inr threeResults"
  by (simp add: semanticSearch_def threeMatches_def threeResults_def toSearchResult_def)

lemma odosIndex_semantic:
  "semanticSearch examplePlatform odosIndex q
     \<lparr> so_topK = Some k, so_filters = None, so_includeMetadata = None \<rparr>
     = Inr [odosResult]"
  by (simp add: semanticSearch_def odosIndex_def odosResult_def toSearchResult_def)

lemma verbatim_prefix:
  assumes "\<And>c. sameLetter c c" and "prefix needle hay"
  shows "caseInsensitivePrefix sameLetter needle hay"
  using assms(2)
proof (induction needle arbitrary: hay)
  case Nil
  show ?case by simp
next
  case (Cons c needle)
  then obtain hay' where "hay = c # hay'" and "prefix needle hay'"
    by (cases hay) auto
  with Cons.IH [of hay'] assms(1) show ?case by simp
qed

lemma verbatim_substring:
  assumes "\<And>c. sameLetter c c" and "sublist needle hay"
  shows "caseInsensitiveSubstring sameLetter needle hay"
  using assms(2)
proof (induction hay)
  case Nil
  then show ?case by simp
next
  case (Cons d hay)
  from Cons.prems have "prefix needle (d # hay) \<or> sublist needle hay"
    by (simp add: sublist_Cons_right)
  then show ?case
  proof
    assume "prefix needle (d # hay)"
    with assms(1) have "caseInsensitivePrefix sameLetter needle (d # hay)"
      by (rule verbatim_prefix)
    then show ?thesis by simp
  next
    assume "sublist needle hay"
    with Cons.IH show ?thesis by simp
  qed
qed

lemma sigma_in_odos: "sublist capitalSigma capitalOdos"
  by (simp add: capitalSigma_def capitalOdos_def sublist_Cons_right)

lemma odos_not_hit: "\<not> keywordHit examplePlatform [capitalSigma] odosResult"
  by (simp add: keywordHit_def odosResult_def examplePlatform_def exampleLower_def
      capitalSigma_def capitalOdos_def)

lemma odos_code_score:
  "hybridSearch examplePlatform odosIndex q [capitalSigma] (halfHalf 1)
     = Inr [withHybridScore odosResult (1 / 2)]"
proof -
  have k: "(0::int) \<le> 1" by simp
  have sc: "lowerCasedScore examplePlatform (1 / 2) (1 / 2) [capitalSigma] odosResult = 1 / 2"
    using odos_not_hit
    by (simp add: lowerCasedScore_def keywordHit_indicator examplePlatform_def odosResult_def)
  show ?thesis
    unfolding hybridSearch_eq [OF odosIndex_semantic halfHalf_defaults examplePlatform_laws]
      list.map sc
    by (simp add: slice0_def sortDescBy_def)
qed

lemma odos_claimed_score:
  assumes "\<And>c. sameLetter c c"
  shows "combinedScore examplePlatform sameLetter (1 / 2) (1 / 2) [capitalSigma] odosResult = 1"
proof -
  from assms sigma_in_odos have "caseInsensitiveSubstring sameLetter capitalSigma capitalOdos"
    by (rule verbatim_substring)
  then have "keywordOverlapIndicator examplePlatform sameLetter [capitalSigma] odosResult = 1"
    by (simp add: keywordOverlapIndicator_def odosResult_def examplePlatform_def)
  then show ?thesis
    by (simp add: combinedScore_def examplePlatform_def odosResult_def)
qed

text \<open>
  C7. The claim: the indicator is 1 exactly when some keyword appears as a
  case-insensitive substring of the chunk text or of a stored keyword. The code compares
  the two strings after \<^verbatim>\<open>toLowerCase\<close>, which is not a comparison letter by letter:
  the chunk text is the Greek word in capitals and the keyword its last letter, the
  capital sigma. The keyword occurs in the text as it stands, so under every reading of
  "the same letter but for case" that takes a letter to be the same as itself the claimed
  score of the chunk is 0.5 * 1 + 0.5 * 1. But the word in lower case ends in the final
  sigma and the keyword in lower case is the other small sigma: the code finds no
  keyword and scores the chunk 0.5 * 1 + 0.
\<close>

theorem verbatim_keyword_gets_no_boost:
  "\<not> (\<exists>sameLetter. (\<forall>c. sameLetter c c) \<and>
        map_sum id (map hybridScore)
          (hybridSearch examplePlatform odosIndex (utf16 ''sigma'') [capitalSigma] (halfHalf 1))
        = Inr (map (combinedScore examplePlatform sameLetter (1 / 2) (1 / 2) [capitalSigma])
                   [odosResult]))"
proof
  assume "\<exists>sameLetter. (\<forall>c. sameLetter c c) \<and>
        map_sum id (map hybridScore)
          (hybridSearch examplePlatform odosIndex (utf16 ''sigma'') [capitalSigma] (halfHalf 1))
        = Inr (map (combinedScore examplePlatform sameLetter (1 / 2) (1 / 2) [capitalSigma])
                   [odosResult])"
  then obtain sameLetter where refl: "\<And>c. sameLetter c c"
    and eq: "map_sum id (map hybridScore)
          (hybridSearch examplePlatform odosIndex (utf16 ''sigma'') [capitalSigma] (halfHalf 1))
        = Inr (map (combinedScore examplePlatform sameLetter (1 / 2) (1 / 2) [capitalSigma])
                   [odosResult])"
    by blast
  from eq have "(1 / 2 :: real) = 1"
    by (simp add: odos_code_score odos_claimed_score [OF refl] withHybridScore_fields)
  then show False by simp
qed

text \<open>
  C7, amended. Hybrid search returns the first \<open>topK\<close> entries of a list \<open>ranked\<close> that
  holds exactly the candidates of the semantic search, each scored
  \<open>semanticWeight * similarity + keywordWeight * indicator\<close> in the arithmetic of doubles,
  in non-increasing order of that score, and stably so: the candidates that share a score
  stand in the order in which the semantic search returned them. The indicator is 1 when,
  for some keyword, the keyword converted to lower case occurs in the candidate's text
  converted to lower case or in one of its stored keywords converted to lower case, and 0
  otherwise. The laws assumed of the arithmetic hold of doubles for a finite keyword
  weight.
\<close>

theorem hybridSearch_reranks_by_lower_cased_score:
  fixes env :: "'n::linorder platform"
  assumes "semanticSearch env svc queryText
             \<lparr> so_topK = Some (topK * 2), so_filters = None, so_includeMetadata = None \<rparr>
           = Inr candidates"
    and "semanticWeight =
           (case ho_semanticWeight options of None \<Rightarrow> lit64 env 0.7 | Some w \<Rightarrow> w)"
    and "keywordWeight =
           (case ho_keywordWeight options of None \<Rightarrow> lit64 env 0.3 | Some w \<Rightarrow> w)"
    and "topK = (case ho_topK options of None \<Rightarrow> 10 | Some k \<Rightarrow> k)"
    and "0 \<le> topK"
    and "\<And>a b. mul64 env a b = mul64 env b a"
    and "mul64 env keywordWeight (lit64 env 1) = keywordWeight"
    and "mul64 env keywordWeight (lit64 env 0) = lit64 env 0"
  shows "\<exists>ranked.
           hybridSearch env svc queryText kws options = Inr (take (nat topK) ranked) \<and>
           mset (map searchResult.truncate ranked) = mset candidates \<and>
           (\<forall>h \<in> set ranked.
              hybridScore h =
                lowerCasedScore env semanticWeight keywordWeight kws (searchResult.truncate h)) \<and>
           sorted_wrt (\<lambda>a b. hybridScore b \<le> hybridScore a) ranked \<and>
           (\<forall>v. map searchResult.truncate (filter (\<lambda>h. hybridScore h = v) ranked) =
                  filter (\<lambda>r. lowerCasedScore env semanticWeight keywordWeight kws r = v)
                    candidates)"
proof -
  let ?score = "lowerCasedScore env semanticWeight keywordWeight kws"
  let ?scored = "map (\<lambda>r. withHybridScore r (?score r)) candidates"
  let ?ranked = "sortDescBy hybridScore ?scored"
  have "hybridSearch env svc queryText kws options = Inr (slice0 ?ranked topK)"
    using assms(1-4,6-8) by (rule hybridSearch_eq)
  with assms(5) have result:
    "hybridSearch env svc queryText kws options = Inr (take (nat topK) ?ranked)"
    by (simp add: slice0_take)
  have "mset (map searchResult.truncate ?ranked) = image_mset searchResult.truncate (mset ?scored)"
    by (simp add: sortDescBy_props(1))
  also have "\<dots> = mset candidates"
    by (simp add: multiset.map_comp comp_def withHybridScore_fields)
  finally have perm: "mset (map searchResult.truncate ?ranked) = mset candidates" .
  have "set ?ranked = set ?scored"
    using sortDescBy_props(1) [of hybridScore ?scored] by (rule mset_eq_setD)
  then have scores: "\<forall>h \<in> set ?ranked. hybridScore h = ?score (searchResult.truncate h)"
    by (auto simp: withHybridScore_fields)
  have sorted: "sorted_wrt (\<lambda>a b. hybridScore b \<le> hybridScore a) ?ranked"
    by (rule sortDescBy_props(2))
  have stable: "\<forall>v. map searchResult.truncate (filter (\<lambda>h. hybridScore h = v) ?ranked) =
                  filter (\<lambda>r. ?score r = v) candidates"
    by (simp add: sortDescBy_props(3) filter_map comp_def withHybridScore_fields)
  show ?thesis
    by (rule exI [of _ ?ranked]) (intro conjI result perm scores sorted stable)
qed

theorem hybridSearch_reranks_by_lower_cased_score_witness:
  "(0::int) \<le> 2 \<and>
   (\<exists>ranked.
      hybridSearch examplePlatform threeMatches (utf16 ''grace period'') [utf16 ''GRACE'']
        (halfHalf 2) = Inr (take (nat 2) ranked) \<and>
      mset (map searchResult.truncate ranked) = mset threeResults \<and>
      (\<forall>h \<in> set ranked.
         hybridScore h =
           lowerCasedScore examplePlatform (1 / 2) (1 / 2) [utf16 ''GRACE'']
             (searchResult.truncate h)) \<and>
      sorted_wrt (\<lambda>a b. hybridScore b \<le> hybridScore a) ranked \<and>
      (\<forall>v. map searchResult.truncate (filter (\<lambda>h. hybridScore h = v) ranked) =
             filter (\<lambda>r. lowerCasedScore examplePlatform (1 / 2) (1 / 2) [utf16 ''GRACE''] r = v)
               threeResults))"
proof -
  have k: "(0::int) \<le> 2" by simp
  from k hybridSearch_reranks_by_lower_cased_score
    [OF threeMatches_semantic halfHalf_defaults k examplePlatform_laws,
     where kws = "[utf16 ''GRACE'']" and queryText = "utf16 ''grace period''"]
  show ?thesis by (rule conjI)
qed

text \<open>The example evaluated: the keyword lifts b over a, and the best two are returned.\<close>

lemma threeResults_scores:
  "map (lowerCasedScore examplePlatform (1 / 2) (1 / 2) [utf16 ''GRACE'']) threeResults
     = [3 / 8, 3 / 4, 1 / 8]"
  by code_simp

lemma hybridSearch_example:
  "map_sum id (map (\<lambda>h. (sr_id h, hybridScore h)))
     (hybridSearch examplePlatform threeMatches (utf16 ''grace period'') [utf16 ''GRACE'']
        (halfHalf 2))
   = Inr [(utf16 ''b'', 3 / 4), (utf16 ''a'', 3 / 8)]"
proof -
  let ?score = "lowerCasedScore examplePlatform (1 / 2) (1 / 2) [utf16 ''GRACE'']"
  have three: "map f threeResults = [f (threeResults ! 0), f (threeResults ! 1), f (threeResults ! 2)]"
    for f :: "real searchResult \<Rightarrow> 'b"
    by (simp add: threeResults_def)
  from threeResults_scores have sc:
    "?score (threeResults ! 0) = 3 / 8" "?score (threeResults ! 1) = 3 / 4"
    "?score (threeResults ! 2) = 1 / 8"
    unfolding three by simp_all
  have ranked: "sortDescBy hybridScore
      [withHybridScore (threeResults ! 0) (3 / 8), withHybridScore (threeResults ! 1) (3 / 4),
       withHybridScore (threeResults ! 2) (1 / 8)]
    = [withHybridScore (threeResults ! 1) (3 / 4), withHybridScore (threeResults ! 0) (3 / 8),
       withHybridScore (threeResults ! 2) (1 / 8)]"
    by (simp add: sortDescBy_def withHybridScore_fields)
  show ?thesis
    unfolding hybridSearch_eq [OF threeMatches_semantic halfHalf_defaults examplePlatform_laws]
      three sc ranked
    by (simp add: slice0_def withHybridScore_def searchResult.defs hybridResult.defs
        threeResults_def)
qed

text \<open>
  On the platform that rounds to quarters, with both weights a half, the first chunk scores
  a half, and the second, whose weighted similarity of an eighth is rounded away, scores a
  half as well. The two tie and keep the order of the semantic search, although without
  rounding the second would score more.
\<close>

lemma rounding_tie_keeps_order:
  "map_sum id (map (\<lambda>h. (sr_id h, hybridScore h)))
     (hybridSearch quarterPlatform tieIndex (utf16 ''grace'') [utf16 ''grace'']
        \<lparr> ho_semanticWeight = Some 2, ho_keywordWeight = Some 2, ho_topK = Some 2 \<rparr>)
   = Inr [(utf16 ''x'', 2), (utf16 ''y'', 2)]"
  by code_simp

section \<open>Properties of question processing\<close>

lemma errorResult_fields:
  "question (errorResult env q options index prov e) = q"
  "confidence (errorResult env q options index prov e) = 0"
  "error_flag (errorResult env q options index prov e)"
  "answer (errorResult env q options index prov e) =
     ''I apologize, but I encountered an error while processing this question with ''
       @ prov @ ''. Please try again or use a different AI model.''"
  by (simp_all add: errorResult_def)

lemma tryBlock_question:
  "case tryBlock env q documents options index prov config of
     Inl e \<Rightarrow> True
   | Inr r \<Rightarrow> question r = q \<and> \<not> error_flag r"
  by (simp add: tryBlock_def Let_def split: sum.split)

lemma question_kept:
  "question (processIndividualQuestion env q documents options index prov config) = q"
  using tryBlock_question [where env = env and q = q and documents = documents
      and options = options and index = index and prov = prov and config = config]
  by (simp add: processIndividualQuestion_def errorResult_fields split: sum.splits)

lemma processIndividualQuestion_raised:
  assumes "tryBlock env q documents options index prov config = Inl e"
  shows "processIndividualQuestion env q documents options index prov config
           = errorResult env q options index prov e"
  using assms by (simp add: processIndividualQuestion_def)

lemma processIndividualQuestion_built:
  assumes "tryBlock env q documents options index prov config = Inr r"
  shows "processIndividualQuestion env q documents options index prov config = r"
  using assms by (simp add: processIndividualQuestion_def)

lemma fill_slots:
  "j < length sl \<Longrightarrow>
   foldl (\<lambda>sl i. sl[i := Some (vals ! i)]) sl order ! j =
     (if j \<in> set order then Some (vals ! j) else sl ! j)"
proof (induction order arbitrary: sl)
  case Nil
  then show ?case by simp
next
  case (Cons i order)
  then show ?case by (auto simp: nth_list_update)
qed

lemma length_fill_slots:
  "length (foldl (\<lambda>sl i. sl[i := Some (vals ! i)]) sl order) = length sl"
  by (induction order arbitrary: sl) simp_all

lemma promiseAll_complete:
  assumes "set order = {0..<length vals}"
  shows "promiseAll order vals = Some vals"
proof -
  let ?slots = "foldl (\<lambda>sl i. sl[i := Some (vals ! i)]) (replicate (length vals) None) order"
  have "?slots = map Some vals"
  proof (rule nth_equalityI)
    show "length ?slots = length (map Some vals)" by (simp add: length_fill_slots)
  next
    fix j assume "j < length ?slots"
    then have j: "j < length vals" by (simp add: length_fill_slots)
    then show "?slots ! j = map Some vals ! j"
      using assms by (simp add: fill_slots)
  qed
  then show ?thesis by (simp add: promiseAll_def list_all_iff comp_def)
qed

lemma push_loop:
  "foldl (\<lambda>rs i. rs @ [f i]) acc xs = acc @ map f xs"
  by (induction xs arbitrary: acc) simp_all

lemma start_all:
  "map (\<lambda>(index, q). f q index) (enumerate 0 questions) = map (\<lambda>i. f (questions ! i) i) [0..<length questions]"
  by (rule nth_equalityI) (simp_all add: nth_enumerate_eq)



lemma processQuestions_results:
  assumes "getModelConfig (o_model options) = Some config"
    and "o_batch_mode options \<longrightarrow> set order = {0..<length questions}"
  shows "\<exists>s. processQuestions env secs order questions documents options = Some (Inr s) \<and>
           results s = map (\<lambda>i. processIndividualQuestion env (questions ! i) documents options i
                                  (getProviderFromModel (o_model options)) config)
                           [0..<length questions]"
proof (cases "o_batch_mode options")
  case True
  with assms(2) have "set order = {0..<length (map (\<lambda>(index, q).
        processIndividualQuestion env q documents options index
          (getProviderFromModel (o_model options)) config) (enumerate 0 questions))}"
    by simp
  from promiseAll_complete [OF this] True assms(1) show ?thesis
    by (simp add: processQuestions_def Let_def start_all)
next
  case False
  with assms(1) show ?thesis
    by (simp add: processQuestions_def Let_def push_loop)
qed

lemma gpt4_config:
  "getModelConfig (o_model (gpt4Options b)) =
     Some (OwnEntry \<lparr> endpoint = ''https://api.openai.com/v1/chat/completions'',
                      maxTokens = 8192, costPer1kTokens = 0.06 \<rparr>)"
  by (simp add: getModelConfig_def getProviderFromModel_def AI_PROVIDERS_def gpt4Options_def)

lemma gpt4_provider: "getProviderFromModel (o_model (gpt4Options b)) = ''openai''"
  by (simp add: getProviderFromModel_def gpt4Options_def)

lemma completion_order: "set [2, 0, 1] = {0..<length [a, b, c :: string]}"
  by auto

text \<open>
  C8. In batch mode the results of the session are in input order, whatever the order in
  which the questions complete: for a supported model, once every question has completed,
  the session holds one result per question and the \<open>i\<close>-th result carries the \<open>i\<close>-th
  question.
\<close>

theorem batch_results_in_input_order:
  assumes "o_batch_mode options"
    and "set order = {0..<length questions}"
    and "getModelConfig (o_model options) = Some config"
  shows "\<exists>s. processQuestions env secs order questions documents options = Some (Inr s) \<and>
           length (results s) = length questions \<and>
           (\<forall>i < length questions. question (results s ! i) = questions ! i)"
proof -
  from processQuestions_results [OF assms(3), where order = order and questions = questions
      and env = env and secs = secs and documents = documents] assms(2)
  obtain s where s: "processQuestions env secs order questions documents options = Some (Inr s)"
    and rs: "results s = map (\<lambda>i. processIndividualQuestion env (questions ! i) documents options i
                                  (getProviderFromModel (o_model options)) config)
                           [0..<length questions]"
    by blast
  from rs have "length (results s) = length questions" by simp
  moreover from rs have "\<forall>i < length questions. question (results s ! i) = questions ! i"
    by (simp add: question_kept)
  ultimately show ?thesis using s by blast
qed

theorem batch_results_in_input_order_witness:
  "o_batch_mode (gpt4Options True) \<and>
   set [2, 0, 1] = {0..<length [''What is the grace period?'', ''Is maternity covered?'',
                               ''What is excluded?'']} \<and>
   (\<exists>s. processQuestions secondFails 3 [2, 0, 1]
          [''What is the grace period?'', ''Is maternity covered?'', ''What is excluded?'']
          [] (gpt4Options True) = Some (Inr s) \<and>
        length (results s) = 3 \<and>
        question (results s ! 0) = ''What is the grace period?'' \<and>
        question (results s ! 1) = ''Is maternity covered?'' \<and>
        question (results s ! 2) = ''What is excluded?'')"
proof -
  let ?qs = "[''What is the grace period?'', ''Is maternity covered?'', ''What is excluded?'']"
  have batch: "o_batch_mode (gpt4Options True)" by (simp add: gpt4Options_def)
  have order: "set [2, 0, 1] = {0..<length ?qs}" by (rule completion_order)
  from batch_results_in_input_order [OF batch order gpt4_config, where env = secondFails
      and secs = 3 and documents = "[]"]
  obtain s where s: "processQuestions secondFails 3 [2, 0, 1] ?qs [] (gpt4Options True) = Some (Inr s)"
    and len: "length (results s) = length ?qs"
    and qs: "\<forall>i < length ?qs. question (results s ! i) = ?qs ! i"
    by blast
  from len have l3: "length (results s) = 3" by simp
  from qs have q0: "question (results s ! 0) = ''What is the grace period?''" by simp
  from qs have "question (results s ! 1) = ?qs ! 1" by simp
  then have q1: "question (results s ! 1) = ''Is maternity covered?''" by simp
  from qs have "question (results s ! 2) = ?qs ! 2" by simp
  then have q2: "question (results s ! 2) = ''What is excluded?''" by simp
  show ?thesis
    by (intro conjI batch order exI [of _ s] s l3 q0 q1 q2)
qed

text \<open>
  C9. When the processing of one question raises, the session is still returned, with one
  result per question: the result of the failed question has confidence 0, the error flag
  and the apology as its answer, and every other question whose processing does not raise
  has exactly the result its own processing built, without the error flag. This holds in
  batch mode and in sequential mode.
\<close>

theorem failed_question_is_isolated:
  assumes "getModelConfig (o_model options) = Some config"
    and "o_batch_mode options \<longrightarrow> set order = {0..<length questions}"
    and "i < length questions"
    and "tryBlock env (questions ! i) documents options i
           (getProviderFromModel (o_model options)) config = Inl e"
  shows "\<exists>s. processQuestions env secs order questions documents options = Some (Inr s) \<and>
           length (results s) = length questions \<and>
           question (results s ! i) = questions ! i \<and>
           confidence (results s ! i) = 0 \<and>
           error_flag (results s ! i) \<and>
           answer (results s ! i) =
             ''I apologize, but I encountered an error while processing this question with ''
               @ getProviderFromModel (o_model options)
               @ ''. Please try again or use a different AI model.'' \<and>
           (\<forall>j < length questions. \<forall>r.
              tryBlock env (questions ! j) documents options j
                (getProviderFromModel (o_model options)) config = Inr r
              \<longrightarrow> results s ! j = r \<and> \<not> error_flag r)"
proof -
  let ?prov = "getProviderFromModel (o_model options)"
  from processQuestions_results [OF assms(1,2), where env = env and secs = secs
      and documents = documents]
  obtain s where s: "processQuestions env secs order questions documents options = Some (Inr s)"
    and rs: "results s = map (\<lambda>i. processIndividualQuestion env (questions ! i) documents options i
                                  ?prov config) [0..<length questions]"
    by blast
  from rs have len: "length (results s) = length questions" by simp
  from rs assms(3) have "results s ! i =
      processIndividualQuestion env (questions ! i) documents options i ?prov config"
    by simp
  with assms(4) have at_i: "results s ! i = errorResult env (questions ! i) options i ?prov e"
    by (simp add: processIndividualQuestion_raised)
  have siblings: "\<forall>j < length questions. \<forall>r.
      tryBlock env (questions ! j) documents options j ?prov config = Inr r
      \<longrightarrow> results s ! j = r \<and> \<not> error_flag r"
  proof (intro allI impI)
    fix j r
    assume j: "j < length questions"
      and built: "tryBlock env (questions ! j) documents options j ?prov config = Inr r"
    from rs j have "results s ! j =
        processIndividualQuestion env (questions ! j) documents options j ?prov config"
      by simp
    with built have "results s ! j = r" by (simp add: processIndividualQuestion_built)
    moreover from tryBlock_question [where env = env and q = "questions ! j"
        and documents = documents and options = options and index = j and prov = ?prov
        and config = config] built
    have "\<not> error_flag r" by simp
    ultimately show "results s ! j = r \<and> \<not> error_flag r" by simp
  qed
  from at_i have q: "question (results s ! i) = questions ! i"
    and c: "confidence (results s ! i) = 0"
    and ef: "error_flag (results s ! i)"
    and ans: "answer (results s ! i) =
             ''I apologize, but I encountered an error while processing this question with ''
               @ ?prov @ ''. Please try again or use a different AI model.''"
    by (simp_all only: errorResult_fields)
  show ?thesis
    by (rule exI [of _ s]) (intro conjI s len q c ef ans siblings)
qed

theorem failed_question_is_isolated_witness:
  "(\<exists>s. processQuestions secondFails 3 [2, 0, 1]
          [''What is the grace period?'', ''Is maternity covered?'', ''What is excluded?'']
          [] (gpt4Options True) = Some (Inr s) \<and>
        length (results s) = 3 \<and>
        confidence (results s ! 1) = 0 \<and>
        error_flag (results s ! 1) \<and>
        answer (results s ! 1) =
          ''I apologize, but I encountered an error while processing this question with openai. Please try again or use a different AI model.'' \<and>
        answer (results s ! 0) = ''The grace period is 30 days.'' \<and>
        \<not> error_flag (results s ! 0) \<and>
        answer (results s ! 2) = ''The grace period is 30 days.'' \<and>
        \<not> error_flag (results s ! 2))"
proof -
  let ?qs = "[''What is the grace period?'', ''Is maternity covered?'', ''What is excluded?'']"
  let ?cfg = "OwnEntry \<lparr> endpoint = ''https://api.openai.com/v1/chat/completions'',
            maxTokens = 8192, costPer1kTokens = 0.06 \<rparr>"
  have order: "o_batch_mode (gpt4Options True) \<longrightarrow> set [2, 0, 1] = {0..<length ?qs}"
    using completion_order by simp
  have i: "(1::nat) < length ?qs" by simp
  have raised: "tryBlock secondFails (?qs ! 1) [] (gpt4Options True) 1
      (getProviderFromModel (o_model (gpt4Options True))) ?cfg
      = Inl (TypeError ''question.toLowerCase is not a function'')"
    by (simp add: tryBlock_def secondFails_def)
  from failed_question_is_isolated [OF gpt4_config order i raised, where secs = 3]
  obtain s where s: "processQuestions secondFails 3 [2, 0, 1] ?qs [] (gpt4Options True) = Some (Inr s)"
    and len: "length (results s) = length ?qs"
    and c: "confidence (results s ! 1) = 0"
    and ef: "error_flag (results s ! 1)"
    and ans: "answer (results s ! 1) =
             ''I apologize, but I encountered an error while processing this question with ''
               @ getProviderFromModel (o_model (gpt4Options True))
               @ ''. Please try again or use a different AI model.''"
    and siblings: "\<forall>j < length ?qs. \<forall>r.
              tryBlock secondFails (?qs ! j) [] (gpt4Options True) j
                (getProviderFromModel (o_model (gpt4Options True))) ?cfg = Inr r
              \<longrightarrow> results s ! j = r \<and> \<not> error_flag r"
    by blast
  from len have l3: "length (results s) = 3" by simp
  from ans have ans': "answer (results s ! 1) =
          ''I apologize, but I encountered an error while processing this question with openai. Please try again or use a different AI model.''"
    by (simp add: gpt4_provider)
  have "\<exists>r. tryBlock secondFails (?qs ! 0) [] (gpt4Options True) 0
                (getProviderFromModel (o_model (gpt4Options True))) ?cfg = Inr r \<and>
          answer r = ''The grace period is 30 days.''"
    by (simp add: tryBlock_def secondFails_def gpt4Options_def Let_def)
  then obtain b0 where built0: "tryBlock secondFails (?qs ! 0) [] (gpt4Options True) 0
                (getProviderFromModel (o_model (gpt4Options True))) ?cfg = Inr b0"
    and answer0: "answer b0 = ''The grace period is 30 days.''"
    by blast
  have "(0::nat) < length ?qs" by simp
  from siblings [rule_format, OF this built0] answer0
  have r0: "answer (results s ! 0) = ''The grace period is 30 days.''"
    "\<not> error_flag (results s ! 0)" by simp_all
  have "\<exists>r. tryBlock secondFails (?qs ! 2) [] (gpt4Options True) 2
                (getProviderFromModel (o_model (gpt4Options True))) ?cfg = Inr r \<and>
          answer r = ''The grace period is 30 days.''"
    by (simp add: tryBlock_def secondFails_def gpt4Options_def Let_def)
  then obtain b2 where built2: "tryBlock secondFails (?qs ! 2) [] (gpt4Options True) 2
                (getProviderFromModel (o_model (gpt4Options True))) ?cfg = Inr b2"
    and answer2: "answer b2 = ''The grace period is 30 days.''"
    by blast
  have "(2::nat) < length ?qs" by simp
  from siblings [rule_format, OF this built2] answer2
  have r2: "answer (results s ! 2) = ''The grace period is 30 days.''"
    "\<not> error_flag (results s ! 2)" by simp_all
  show ?thesis
    by (intro conjI exI [of _ s] s l3 c ef ans' r0 r2)
qed

text \<open>
  A model id that names an inherited member, such as \<^verbatim>\<open>toString\<close>, is not refused:
  the questions are processed, at a cost that is not a number.
\<close>

lemma toString_config: "getModelConfig ''toString'' = Some InheritedMember"
  by (simp add: getModelConfig_def getProviderFromModel_def AI_PROVIDERS_def
      objectPrototypeKeys_def)

lemma inherited_member_is_processed:
  "\<exists>s. processQuestions secondFails 3 [0] [''What is the grace period?''] []
          ((gpt4Options True)\<lparr>o_model := ''toString''\<rparr>) = Some (Inr s) \<and>
       map error_flag (results s) = [False] \<and>
       map cost_estimate (results s) = [None] \<and>
       total_cost (metadata s) = None"
  by (simp add: processQuestions_def toString_config gpt4Options_def promiseAll_def
      processIndividualQuestion_def tryBlock_def secondFails_def Let_def enumerate_eq_zip)

end
